theory Spec2Isabelle
  imports Complex_Main
begin

section \<open>Errors, arrays and the external encoders\<close>

text \<open>
  The program is one Python script (\<^verbatim>\<open>main.ipynb\<close>). Arrays are nested lists with the
  batch axis outermost: token-id and mask arrays are integer matrices (batch by sequence
  position), embeddings are real matrices (batch by feature). Floating-point numbers are
  modelled as reals. Every exception the script can raise is a value of \<open>error\<close>.
\<close>

datatype error = NameError string | ValueError | IndexError

definition and_then :: "error + 'a \<Rightarrow> ('a \<Rightarrow> error + 'b) \<Rightarrow> error + 'b" where
  "and_then r f = (case r of Inl e \<Rightarrow> Inl e | Inr x \<Rightarrow> f x)"

text \<open>
  What a pretrained encoder returns (\<^verbatim>\<open>outputs\<close> at lines 76 and 88): the pooled vector of
  every sample and the hidden vector of every token of every sample. The encoder itself is
  an external collaborator: at a given state of its weights it is taken as a function of
  the token ids and the attention mask.
\<close>

record encoder_outputs =
  pooler_output :: "real list list"
  last_hidden_state :: "real list list list"

type_synonym encoder = "int list list \<Rightarrow> int list list \<Rightarrow> encoder_outputs"

text \<open>
  The trainable state of the network: the two encoders (\<^verbatim>\<open>bert_model\<close>,
  \<^verbatim>\<open>roberta_model\<close>) and, per dense layer name, its kernel (input index, unit index)
  and bias (unit index).
\<close>

record weights =
  bert_model :: encoder
  roberta_model :: encoder
  kernel :: "string \<Rightarrow> nat \<Rightarrow> nat \<Rightarrow> real"
  bias :: "string \<Rightarrow> nat \<Rightarrow> real"

definition max_seq_length :: nat where
  "max_seq_length = 70"

section \<open>The two branches (lines 74-91)\<close>

text \<open>
  \<^verbatim>\<open>bert_branch\<close> returns \<^verbatim>\<open>outputs.pooler_output\<close>; \<^verbatim>\<open>roberta_branch\<close> returns
  \<^verbatim>\<open>outputs.last_hidden_state[:, 0, :]\<close>, which raises when the sequence axis is empty.
\<close>

definition bert_branch :: "weights \<Rightarrow> int list list \<times> int list list \<Rightarrow> error + real list list" where
  "bert_branch w inputs =
     (case inputs of (input_ids, attention_mask) \<Rightarrow>
        let outputs = bert_model w input_ids attention_mask
        in Inr (pooler_output outputs))"

definition roberta_branch :: "weights \<Rightarrow> int list list \<times> int list list \<Rightarrow> error + real list list" where
  "roberta_branch w inputs =
     (case inputs of (input_ids, attention_mask) \<Rightarrow>
        let outputs = roberta_model w input_ids attention_mask
        in if list_ex (\<lambda>tokens. tokens = []) (last_hidden_state outputs) then Inl IndexError
           else Inr (map (\<lambda>tokens. tokens ! 0) (last_hidden_state outputs)))"

section \<open>The layer graph (lines 62-107, 132-135)\<close>

text \<open>
  The Keras functional API builds a graph of layer calls; a \<^verbatim>\<open>Model\<close> names input
  nodes and one output node of that graph. Dense and dropout layers carry the name Keras
  gives them, under which their weights and their random keep-masks are looked up.
\<close>

datatype activation = Relu | Sigmoid

datatype branch_fn = Bert_branch | Roberta_branch

datatype input_layer = Input string nat

datatype layer =
    Lambda branch_fn nat "input_layer list"
  | Concatenate "layer list"
  | Dense string nat activation layer
  | Dropout string real layer

record model =
  model_inputs :: "input_layer list"
  model_outputs :: layer

fun input_name :: "input_layer \<Rightarrow> string" where
  "input_name (Input name shape) = name"

definition relu :: "real \<Rightarrow> real" where
  "relu x = max 0 x"

definition sigmoid :: "real \<Rightarrow> real" where
  "sigmoid x = 1 / (1 + exp (- x))"

fun activate :: "activation \<Rightarrow> real \<Rightarrow> real" where
  "activate Relu x = relu x"
| "activate Sigmoid x = sigmoid x"

text \<open>An input node reads the array fed under its name and checks the declared row length.\<close>

fun read_input :: "(string \<rightharpoonup> int list list) \<Rightarrow> input_layer \<Rightarrow> error + int list list" where
  "read_input feed (Input name shape) =
     (case feed name of
        None \<Rightarrow> Inl ValueError
      | Some arr \<Rightarrow> if list_all (\<lambda>row. length row = shape) arr then Inr arr else Inl ValueError)"

fun branch_call :: "weights \<Rightarrow> branch_fn \<Rightarrow> int list list \<times> int list list \<Rightarrow> error + real list list" where
  "branch_call w Bert_branch inputs = bert_branch w inputs"
| "branch_call w Roberta_branch inputs = roberta_branch w inputs"

text \<open>\<^verbatim>\<open>Concatenate()\<close> joins the rows of its inputs along the last axis, in list order.\<close>

fun concatenate_call :: "real list list list \<Rightarrow> error + real list list" where
  "concatenate_call [] = Inl ValueError"
| "concatenate_call [X] = Inr X"
| "concatenate_call (X # Xs) =
     and_then (concatenate_call Xs)
       (\<lambda>Y. if length X = length Y then Inr (map2 (@) X Y) else Inl ValueError)"

text \<open>\<^verbatim>\<open>Dense(units, activation)\<close>: every unit is the activation of a weighted sum plus a bias.\<close>

definition dense_unit :: "activation \<Rightarrow> (nat \<Rightarrow> nat \<Rightarrow> real) \<Rightarrow> (nat \<Rightarrow> real) \<Rightarrow> real list \<Rightarrow> nat \<Rightarrow> real" where
  "dense_unit act K b x j = activate act ((\<Sum>i\<leftarrow>[0..<length x]. x ! i * K i j) + b j)"

definition dense_call :: "nat \<Rightarrow> activation \<Rightarrow> (nat \<Rightarrow> nat \<Rightarrow> real) \<Rightarrow> (nat \<Rightarrow> real) \<Rightarrow> real list list \<Rightarrow> real list list" where
  "dense_call units act K b X = map (\<lambda>x. map (dense_unit act K b x) [0..<units]) X"

text \<open>
  \<^verbatim>\<open>Dropout(rate)\<close>: when training, a unit is kept and scaled by \<open>1 / (1 - rate)\<close> or set
  to zero, as the random keep-mask says (row, column); otherwise the layer is the identity.
\<close>

definition dropout_call :: "real \<Rightarrow> bool \<Rightarrow> (nat \<Rightarrow> nat \<Rightarrow> bool) \<Rightarrow> real list list \<Rightarrow> real list list" where
  "dropout_call rate training keep X =
     (if training
      then map (\<lambda>(i, x). map (\<lambda>(j, v). if keep i j then v / (1 - rate) else 0) (enumerate 0 x)) (enumerate 0 X)
      else X)"

fun forward :: "weights \<Rightarrow> bool \<Rightarrow> (string \<Rightarrow> nat \<Rightarrow> nat \<Rightarrow> bool) \<Rightarrow> (string \<rightharpoonup> int list list) \<Rightarrow> layer \<Rightarrow> error + real list list"
  and forward_all :: "weights \<Rightarrow> bool \<Rightarrow> (string \<Rightarrow> nat \<Rightarrow> nat \<Rightarrow> bool) \<Rightarrow> (string \<rightharpoonup> int list list) \<Rightarrow> layer list \<Rightarrow> error + real list list list"
where
  "forward w training keep feed (Lambda f output_shape ins) =
     (case ins of
        [a, b] \<Rightarrow> and_then (read_input feed a) (\<lambda>x. and_then (read_input feed b) (\<lambda>y. branch_call w f (x, y)))
      | _ \<Rightarrow> Inl ValueError)"
| "forward w training keep feed (Concatenate ls) =
     and_then (forward_all w training keep feed ls) concatenate_call"
| "forward w training keep feed (Dense name units act l) =
     and_then (forward w training keep feed l) (\<lambda>X. Inr (dense_call units act (kernel w name) (bias w name) X))"
| "forward w training keep feed (Dropout name rate l) =
     and_then (forward w training keep feed l) (\<lambda>X. Inr (dropout_call rate training (keep name) X))"
| "forward_all w training keep feed [] = Inr []"
| "forward_all w training keep feed (l # ls) =
     and_then (forward w training keep feed l)
       (\<lambda>X. and_then (forward_all w training keep feed ls) (\<lambda>Xs. Inr (X # Xs)))"

text \<open>
  Calling a model binds the given arrays to its inputs by position and evaluates its
  output node. \<^verbatim>\<open>Model.predict\<close> calls it with \<^verbatim>\<open>training=False\<close>; \<open>rng\<close> stands
  for the random state the dropout layers would draw their masks from.
\<close>

definition model_call :: "weights \<Rightarrow> bool \<Rightarrow> (string \<Rightarrow> nat \<Rightarrow> nat \<Rightarrow> bool) \<Rightarrow> model \<Rightarrow> int list list list \<Rightarrow> error + real list list" where
  "model_call w training keep m xs =
     (if length xs \<noteq> length (model_inputs m) then Inl ValueError
      else forward w training keep (map_of (zip (map input_name (model_inputs m)) xs)) (model_outputs m))"

definition predict :: "weights \<Rightarrow> (string \<Rightarrow> nat \<Rightarrow> nat \<Rightarrow> bool) \<Rightarrow> model \<Rightarrow> int list list list \<Rightarrow> error + real list list" where
  "predict w rng m xs = model_call w False rng m xs"

subsection \<open>The graph the script builds\<close>

definition bert_input_ids :: input_layer where
  "bert_input_ids = Input ''bert_input_ids'' max_seq_length"

definition bert_attention :: input_layer where
  "bert_attention = Input ''bert_attention_mask'' max_seq_length"

definition roberta_input_ids :: input_layer where
  "roberta_input_ids = Input ''roberta_input_ids'' max_seq_length"

definition roberta_attention :: input_layer where
  "roberta_attention = Input ''roberta_attention_mask'' max_seq_length"

definition bert_output :: layer where
  "bert_output = Lambda Bert_branch 768 [bert_input_ids, bert_attention]"

definition roberta_output :: layer where
  "roberta_output = Lambda Roberta_branch 768 [roberta_input_ids, roberta_attention]"

definition combined_embedding :: layer where
  "combined_embedding = Concatenate [bert_output, roberta_output]"

definition classifier_output :: layer where
  "classifier_output =
     Dense ''classifier_output'' 1 Sigmoid
       (Dropout ''dropout_1'' (3 / 10)
          (Dense ''dense_1'' 64 Relu
             (Dropout ''dropout'' (3 / 10)
                (Dense ''dense'' 128 Relu combined_embedding))))"

definition ensemble_model :: model where
  "ensemble_model =
     \<lparr>model_inputs = [bert_input_ids, bert_attention, roberta_input_ids, roberta_attention],
      model_outputs = classifier_output\<rparr>"

definition embedding_extractor :: model where
  "embedding_extractor =
     \<lparr>model_inputs = [bert_input_ids, bert_attention, roberta_input_ids, roberta_attention],
      model_outputs = combined_embedding\<rparr>"

text \<open>
  The layers of a graph that draw random numbers when called: the dropout layers on the
  paths that lead to a node.
\<close>

fun stochastic_layers :: "layer \<Rightarrow> string list"
  and stochastic_layers_all :: "layer list \<Rightarrow> string list" where
  "stochastic_layers (Lambda f output_shape ins) = []"
| "stochastic_layers (Concatenate ls) = stochastic_layers_all ls"
| "stochastic_layers (Dense name units act l) = stochastic_layers l"
| "stochastic_layers (Dropout name rate l) = name # stochastic_layers l"
| "stochastic_layers_all [] = []"
| "stochastic_layers_all (l # ls) = stochastic_layers l @ stochastic_layers_all ls"

section \<open>Splitting the data (lines 38-44)\<close>

text \<open>
  Modelled from the spec: \<^verbatim>\<open>train_test_split\<close> is a library function that is not part of
  the source; the script calls it once, with the five arrays together. It draws one
  permutation of the row numbers from its random state, takes the first \<open>n_test\<close> of
  them as the test rows and the rest as the train rows, and indexes every array it was
  given with these same two row lists. The permutation \<open>perm\<close> and the test size
  \<open>n_test\<close> (the ceiling of 0.2 times the number of rows, in double arithmetic) are
  parameters. Arrays of different lengths, or an empty train part, are a ValueError.
\<close>

definition test_rows :: "nat list \<Rightarrow> nat \<Rightarrow> nat list" where
  "test_rows perm n_test = take n_test perm"

definition train_rows :: "nat list \<Rightarrow> nat \<Rightarrow> nat list" where
  "train_rows perm n_test = take (length perm - n_test) (drop n_test perm)"

definition safe_indexing :: "'a list \<Rightarrow> nat list \<Rightarrow> 'a list" where
  "safe_indexing a rows = map (\<lambda>i. a ! i) rows"

definition split_array :: "nat list \<Rightarrow> nat \<Rightarrow> 'a list \<Rightarrow> 'a list \<times> 'a list" where
  "split_array perm n_test a =
     (safe_indexing a (train_rows perm n_test), safe_indexing a (test_rows perm n_test))"

definition train_test_split ::
  "nat list \<Rightarrow> nat \<Rightarrow> 'a list \<Rightarrow> 'b list \<Rightarrow> 'c list \<Rightarrow> 'd list \<Rightarrow> 'e list \<Rightarrow>
   error + (('a list \<times> 'a list) \<times> ('b list \<times> 'b list) \<times> ('c list \<times> 'c list) \<times> ('d list \<times> 'd list) \<times> ('e list \<times> 'e list))" where
  "train_test_split perm n_test a1 a2 a3 a4 a5 =
     (let n_samples = length a1 in
      if length a2 \<noteq> n_samples \<or> length a3 \<noteq> n_samples \<or> length a4 \<noteq> n_samples \<or> length a5 \<noteq> n_samples
        then Inl ValueError
      else if n_samples \<le> n_test then Inl ValueError
      else Inr (split_array perm n_test a1, split_array perm n_test a2, split_array perm n_test a3,
                split_array perm n_test a4, split_array perm n_test a5))"

section \<open>Tokenization (lines 27-33, 197-204)\<close>

text \<open>
  Modelled from the spec: the tokenizers are external collaborators that are not part of
  the source. A tokenizer maps a text to the ids of its word pieces (\<open>encode_text\<close>, its
  vocabulary); called with \<^verbatim>\<open>truncation=True, padding='max_length'\<close> it cuts the pieces so
  that they fit between the start and end tokens, and pads with the padding token, the
  mask being 1 on real tokens and 0 on padding.
\<close>

record tokenizer =
  encode_text :: "string \<Rightarrow> int list"
  cls_token_id :: int
  sep_token_id :: int
  pad_token_id :: int

definition tokenizer_call :: "tokenizer \<Rightarrow> string \<Rightarrow> nat \<Rightarrow> int list \<times> int list" where
  "tokenizer_call tok text max_len =
     (let pieces = take (max_len - 2) (encode_text tok text);
          ids = cls_token_id tok # pieces @ [sep_token_id tok];
          n_pad = max_len - length ids
      in (ids @ replicate n_pad (pad_token_id tok), replicate (length ids) 1 @ replicate n_pad 0))"

definition tokenize_for_model :: "tokenizer \<Rightarrow> string list \<Rightarrow> nat \<Rightarrow> int list list \<times> int list list" where
  "tokenize_for_model tok texts max_len =
     (let encodings = map (\<lambda>text. tokenizer_call tok text max_len) texts
      in (map fst encodings, map snd encodings))"

section \<open>The secondary classifier (lines 151-156)\<close>

text \<open>
  Modelled from the spec: \<^verbatim>\<open>MLPClassifier\<close> is a library class that is not part of the
  source. The record holds the constructor arguments of line 151 and what fitting sets:
  the sorted distinct labels (\<open>classes\<close>, empty before fitting), the feature count, the
  coefficients (layer, input index, unit index), the intercepts and the iteration count.
  The optimizer's arithmetic is external: \<open>initialise\<close> draws the starting coefficients
  from the random state and the layer sizes, \<open>update\<close> is one training iteration, and
  \<open>stop_now\<close> is the convergence test.
\<close>

record mlp_classifier =
  hidden_layer_sizes :: "nat list"
  max_iter :: nat
  learning_rate_init :: real
  random_state :: nat
  classes :: "int list"
  n_features_in :: nat
  coefs :: "nat \<Rightarrow> nat \<Rightarrow> nat \<Rightarrow> real"
  intercepts :: "nat \<Rightarrow> nat \<Rightarrow> real"
  n_iter :: nat

type_synonym mlp_params = "(nat \<Rightarrow> nat \<Rightarrow> nat \<Rightarrow> real) \<times> (nat \<Rightarrow> nat \<Rightarrow> real)"

record mlp_optimizer =
  initialise :: "nat \<Rightarrow> nat list \<Rightarrow> mlp_params"
  update :: "real \<Rightarrow> real list list \<Rightarrow> int list \<Rightarrow> mlp_params \<Rightarrow> mlp_params"
  stop_now :: "real list list \<Rightarrow> int list \<Rightarrow> nat \<Rightarrow> mlp_params \<Rightarrow> bool"

definition mlp_clf :: mlp_classifier where
  "mlp_clf =
     \<lparr>hidden_layer_sizes = [128, 64], max_iter = 1000, learning_rate_init = 1 / 1000, random_state = 42,
      classes = [], n_features_in = 0, coefs = (\<lambda>l i j. 0), intercepts = (\<lambda>l j. 0), n_iter = 0\<rparr>"

fun fit_iterations :: "mlp_optimizer \<Rightarrow> real \<Rightarrow> real list list \<Rightarrow> int list \<Rightarrow> nat \<Rightarrow> nat \<Rightarrow> mlp_params \<Rightarrow> mlp_params \<times> nat" where
  "fit_iterations opt rate X y 0 it p = (p, it)"
| "fit_iterations opt rate X y (Suc remaining) it p =
     (let p' = update opt rate X y p in
      if stop_now opt X y (Suc it) p' then (p', Suc it)
      else fit_iterations opt rate X y remaining (Suc it) p')"

definition mlp_fit :: "mlp_optimizer \<Rightarrow> mlp_classifier \<Rightarrow> real list list \<Rightarrow> int list \<Rightarrow> error + mlp_classifier" where
  "mlp_fit opt clf X y =
     (if X = [] \<or> length X \<noteq> length y \<or> \<not> list_all (\<lambda>x. length x = length (hd X)) X then Inl ValueError
      else
        let cs = sorted_list_of_set (set y);
            n_outputs = (if length cs \<le> 2 then 1 else length cs);
            layer_units = length (hd X) # hidden_layer_sizes clf @ [n_outputs];
            p0 = initialise opt (random_state clf) layer_units;
            (p, it) = fit_iterations opt (learning_rate_init clf) X y (max_iter clf) 0 p0
        in Inr (clf\<lparr>classes := cs, n_features_in := length (hd X), coefs := fst p, intercepts := snd p, n_iter := it\<rparr>))"

definition mlp_layer :: "(real \<Rightarrow> real) \<Rightarrow> (nat \<Rightarrow> nat \<Rightarrow> real) \<Rightarrow> (nat \<Rightarrow> real) \<Rightarrow> nat \<Rightarrow> real list \<Rightarrow> real list" where
  "mlp_layer act C b units x = map (\<lambda>j. act ((\<Sum>i\<leftarrow>[0..<length x]. x ! i * C i j) + b j)) [0..<units]"

fun mlp_hidden :: "mlp_classifier \<Rightarrow> nat \<Rightarrow> nat list \<Rightarrow> real list \<Rightarrow> real list" where
  "mlp_hidden clf l [] x = x"
| "mlp_hidden clf l (units # rest) x = mlp_hidden clf (Suc l) rest (mlp_layer relu (coefs clf l) (intercepts clf l) units x)"

definition mlp_scores :: "mlp_classifier \<Rightarrow> nat \<Rightarrow> real list \<Rightarrow> real list" where
  "mlp_scores clf n_outputs x =
     (let l = length (hidden_layer_sizes clf)
      in mlp_layer (\<lambda>v. v) (coefs clf l) (intercepts clf l) n_outputs (mlp_hidden clf 0 (hidden_layer_sizes clf) x))"

fun argmax_from :: "nat \<Rightarrow> real \<Rightarrow> nat \<Rightarrow> real list \<Rightarrow> nat" where
  "argmax_from best v i [] = best"
| "argmax_from best v i (x # xs) = (if v < x then argmax_from i x (Suc i) xs else argmax_from best v (Suc i) xs)"

definition argmax :: "real list \<Rightarrow> nat" where
  "argmax xs = (case xs of [] \<Rightarrow> 0 | x # rest \<Rightarrow> argmax_from 0 x 1 rest)"

text \<open>
  One or two classes: a single logistic output, thresholded at one half. More classes: one
  output per class, the largest wins.
\<close>

definition mlp_predict_row :: "mlp_classifier \<Rightarrow> real list \<Rightarrow> int" where
  "mlp_predict_row clf x =
     (case classes clf of
        [c] \<Rightarrow> c
      | [c0, c1] \<Rightarrow> if 1 / 2 < sigmoid (hd (mlp_scores clf 1 x)) then c1 else c0
      | cs \<Rightarrow> cs ! argmax (mlp_scores clf (length cs) x))"

definition mlp_predict :: "mlp_classifier \<Rightarrow> real list list \<Rightarrow> error + int list" where
  "mlp_predict clf X =
     (if classes clf = [] then Inl ValueError
      else if \<not> list_all (\<lambda>x. length x = n_features_in clf) X then Inl ValueError
      else Inr (map (mlp_predict_row clf) X))"

section \<open>Stage 2 of the script (lines 136-156)\<close>

text \<open>
  The embeddings of the train and test rows are what the extractor predicts on their token
  arrays; the classifier of line 151 is fitted on the train embeddings and the train
  labels, and applied to the test embeddings.
\<close>

definition train_embeddings :: "weights \<Rightarrow> (string \<Rightarrow> nat \<Rightarrow> nat \<Rightarrow> bool) \<Rightarrow> int list list list \<Rightarrow> error + real list list" where
  "train_embeddings w rng X_train = predict w rng embedding_extractor X_train"

definition test_embeddings :: "weights \<Rightarrow> (string \<Rightarrow> nat \<Rightarrow> nat \<Rightarrow> bool) \<Rightarrow> int list list list \<Rightarrow> error + real list list" where
  "test_embeddings w rng X_test = predict w rng embedding_extractor X_test"

definition mlp_clf_fitted ::
  "mlp_optimizer \<Rightarrow> weights \<Rightarrow> (string \<Rightarrow> nat \<Rightarrow> nat \<Rightarrow> bool) \<Rightarrow> int list list list \<Rightarrow> int list \<Rightarrow> error + mlp_classifier" where
  "mlp_clf_fitted opt w rng X_train y_train =
     and_then (train_embeddings w rng X_train) (\<lambda>embeddings. mlp_fit opt mlp_clf embeddings y_train)"

definition preds ::
  "mlp_optimizer \<Rightarrow> weights \<Rightarrow> (string \<Rightarrow> nat \<Rightarrow> nat \<Rightarrow> bool) \<Rightarrow> int list list list \<Rightarrow> int list \<Rightarrow> int list list list \<Rightarrow> error + int list" where
  "preds opt w rng X_train y_train X_test =
     and_then (mlp_clf_fitted opt w rng X_train y_train)
       (\<lambda>clf. and_then (test_embeddings w rng X_test) (mlp_predict clf))"

section \<open>Inference (lines 195-211)\<close>

text \<open>
  \<^verbatim>\<open>predict_sarcasm\<close> reads four globals: the two tokenizers, the layers' weights behind
  \<^verbatim>\<open>embedding_extractor\<close>, and the fitted \<^verbatim>\<open>mlp_clf\<close>. What a Python function returns
  is a value of either type, so results are tagged. The two strings it can return end with
  an emoji each, written here as the bytes of its UTF-8 encoding. The casts to
  \<^verbatim>\<open>np.int32\<close> leave token ids and masks as they are.
\<close>

datatype pyval = PyInt int | PyStr string

record globals =
  bert_tokenizer :: tokenizer
  roberta_tokenizer :: tokenizer
  ensemble_weights :: weights
  fitted_mlp_clf :: mlp_classifier

definition sarcastic :: string where
  "sarcastic = ''Sarcastic'' @ [CHR 0xF0, CHR 0x9F, CHR 0x98, CHR 0x8F]"

definition not_sarcastic :: string where
  "not_sarcastic = ''Not Sarcastic'' @ [CHR 0xF0, CHR 0x9F, CHR 0x98, CHR 0x8A]"

definition predict_sarcasm :: "globals \<Rightarrow> (string \<Rightarrow> nat \<Rightarrow> nat \<Rightarrow> bool) \<Rightarrow> string \<Rightarrow> error + pyval" where
  "predict_sarcasm g rng text =
     (let enc_bert = tokenizer_call (bert_tokenizer g) text max_seq_length;
          input_ids_bert = [fst enc_bert];
          attention_mask_bert = [snd enc_bert];
          enc_roberta = tokenizer_call (roberta_tokenizer g) text max_seq_length;
          input_ids_roberta = [fst enc_roberta];
          attention_mask_roberta = [snd enc_roberta]
      in and_then
           (predict (ensemble_weights g) rng embedding_extractor
              [input_ids_bert, attention_mask_bert, input_ids_roberta, attention_mask_roberta])
           (\<lambda>emb. and_then (mlp_predict (fitted_mlp_clf g) emb)
              (\<lambda>pred. case pred of
                         [] \<Rightarrow> Inl IndexError
                       | p0 # rest \<Rightarrow> Inr (PyStr (if p0 = 1 then sarcastic else not_sarcastic)))))"

section \<open>Fine-tuning with its two callbacks (lines 112-128)\<close>

text \<open>
  Modelled from the spec: \<^verbatim>\<open>Model.fit\<close> and the callback classes
  \<^verbatim>\<open>ReduceLROnPlateau\<close> and \<^verbatim>\<open>EarlyStopping\<close> are library code that is not part of the
  source. Each epoch trains, evaluates the validation loss, and then calls the callbacks in
  the order of the list of line 127; the loop ends when the epoch budget is used up or a
  callback has set \<open>stop_training\<close>. A callback object holds its constructor arguments and
  its counters; \<open>None\<close> as the best loss stands for infinity. One epoch of gradient descent
  (\<open>train_epoch\<close>: epoch number, learning rate, weights) and the loss on the validation
  slice (\<open>val_loss\<close>) are external.
\<close>

record reduce_lr_on_plateau =
  lr_factor :: real
  lr_patience :: nat
  lr_min_delta :: real
  lr_cooldown :: nat
  lr_min_lr :: real
  lr_best :: "real option"
  lr_wait :: nat
  lr_cooldown_counter :: nat

record 'w early_stopping =
  es_patience :: nat
  es_min_delta :: real
  es_restore_best_weights :: bool
  es_wait :: nat
  es_best :: "real option"
  es_best_weights :: "'w option"
  es_best_epoch :: nat
  es_stopped_epoch :: nat

record 'w trainer =
  train_epoch :: "nat \<Rightarrow> real \<Rightarrow> 'w \<Rightarrow> 'w"
  val_loss :: "'w \<Rightarrow> real"

record 'w training =
  model_weights :: 'w
  learning_rate :: real
  stop_training :: bool
  val_loss_history :: "real list"
  scheduler :: reduce_lr_on_plateau
  stopper :: "'w early_stopping"

definition is_improvement :: "real \<Rightarrow> real \<Rightarrow> real option \<Rightarrow> bool" where
  "is_improvement current delta best = (case best of None \<Rightarrow> True | Some b \<Rightarrow> current < b - delta)"

definition reduce_lr_on_epoch_end :: "real \<Rightarrow> 'w training \<Rightarrow> 'w training" where
  "reduce_lr_on_epoch_end current s =
     (let c = scheduler s;
          c1 = (if 0 < lr_cooldown_counter c
                then c\<lparr>lr_cooldown_counter := lr_cooldown_counter c - 1, lr_wait := 0\<rparr> else c)
      in if is_improvement current (lr_min_delta c1) (lr_best c1)
           then s\<lparr>scheduler := c1\<lparr>lr_best := Some current, lr_wait := 0\<rparr>\<rparr>
         else if 0 < lr_cooldown_counter c1 then s\<lparr>scheduler := c1\<rparr>
         else
           let c2 = c1\<lparr>lr_wait := lr_wait c1 + 1\<rparr> in
           if lr_patience c2 \<le> lr_wait c2 \<and> lr_min_lr c2 < learning_rate s
             then s\<lparr>learning_rate := max (learning_rate s * lr_factor c2) (lr_min_lr c2),
                    scheduler := c2\<lparr>lr_cooldown_counter := lr_cooldown c2, lr_wait := 0\<rparr>\<rparr>
           else s\<lparr>scheduler := c2\<rparr>)"

definition early_stopping_on_epoch_end :: "nat \<Rightarrow> real \<Rightarrow> 'w training \<Rightarrow> 'w training" where
  "early_stopping_on_epoch_end epoch current s =
     (let e = stopper s;
          e1 = (if es_restore_best_weights e \<and> es_best_weights e = None
                then e\<lparr>es_best_weights := Some (model_weights s)\<rparr> else e);
          e2 = e1\<lparr>es_wait := es_wait e1 + 1\<rparr>;
          e3 = (if is_improvement current (es_min_delta e2) (es_best e2)
                then e2\<lparr>es_best := Some current, es_best_epoch := epoch,
                        es_best_weights := (if es_restore_best_weights e2 then Some (model_weights s)
                                            else es_best_weights e2),
                        es_wait := 0\<rparr>
                else e2)
      in if es_patience e3 \<le> es_wait e3 \<and> 0 < epoch
           then (case (es_restore_best_weights e3, es_best_weights e3) of
                   (True, Some best) \<Rightarrow>
                     s\<lparr>model_weights := best, stop_training := True, stopper := e3\<lparr>es_stopped_epoch := epoch\<rparr>\<rparr>
                 | _ \<Rightarrow> s\<lparr>stop_training := True, stopper := e3\<lparr>es_stopped_epoch := epoch\<rparr>\<rparr>)
         else s\<lparr>stopper := e3\<rparr>)"

fun fit_epochs :: "'w trainer \<Rightarrow> nat \<Rightarrow> nat \<Rightarrow> 'w training \<Rightarrow> 'w training" where
  "fit_epochs tr epoch 0 s = s"
| "fit_epochs tr epoch (Suc remaining) s =
     (let w' = train_epoch tr epoch (learning_rate s) (model_weights s);
          current = val_loss tr w';
          s1 = s\<lparr>model_weights := w', val_loss_history := val_loss_history s @ [current]\<rparr>;
          s2 = reduce_lr_on_epoch_end current s1;
          s3 = early_stopping_on_epoch_end epoch current s2
      in if stop_training s3 then s3 else fit_epochs tr (Suc epoch) remaining s3)"

definition fit :: "'w trainer \<Rightarrow> reduce_lr_on_plateau \<Rightarrow> 'w early_stopping \<Rightarrow> nat \<Rightarrow> real \<Rightarrow> 'w \<Rightarrow> 'w training" where
  "fit tr sched stop n_epochs lr w =
     fit_epochs tr 0 n_epochs
       \<lparr>model_weights = w, learning_rate = lr, stop_training = False, val_loss_history = [],
        scheduler = sched\<lparr>lr_best := None, lr_wait := 0, lr_cooldown_counter := 0\<rparr>,
        stopper = stop\<lparr>es_wait := 0, es_best := None, es_best_weights := None,
                       es_best_epoch := 0, es_stopped_epoch := 0\<rparr>\<rparr>"

text \<open>The objects the script constructs (lines 112, 118, 119) and the call of line 121.\<close>

definition optimizer_learning_rate :: real where
  "optimizer_learning_rate = 3 / 100000"

definition lr_scheduler :: reduce_lr_on_plateau where
  "lr_scheduler =
     \<lparr>lr_factor = 1 / 2, lr_patience = 2, lr_min_delta = 1 / 10000, lr_cooldown = 0, lr_min_lr = 0,
      lr_best = None, lr_wait = 0, lr_cooldown_counter = 0\<rparr>"

definition early_stopper :: "'w early_stopping" where
  "early_stopper =
     \<lparr>es_patience = 4, es_min_delta = 0, es_restore_best_weights = True,
      es_wait = 0, es_best = None, es_best_weights = None, es_best_epoch = 0, es_stopped_epoch = 0\<rparr>"

definition epochs :: nat where
  "epochs = 1"

definition history :: "'w trainer \<Rightarrow> 'w \<Rightarrow> 'w training" where
  "history tr w = fit tr lr_scheduler early_stopper epochs optimizer_learning_rate w"

text \<open>
  The loss the model is compiled with (line 114): the mean over the batch of the binary
  cross-entropy of label and predicted probability. The library clips the probability to
  the interval from \<open>epsilon\<close> to \<open>1 - epsilon\<close> before it takes logarithms.
\<close>

datatype loss_name = Binary_crossentropy | Mean_squared_error

record compile_args =
  compile_learning_rate :: real
  compile_loss :: loss_name
  compile_metrics :: "string list"

definition ensemble_model_compile :: compile_args where
  "ensemble_model_compile =
     \<lparr>compile_learning_rate = optimizer_learning_rate, compile_loss = Binary_crossentropy,
      compile_metrics = [''accuracy'']\<rparr>"

definition epsilon :: real where
  "epsilon = 1 / 10000000"

definition binary_crossentropy :: "real \<Rightarrow> real \<Rightarrow> real" where
  "binary_crossentropy y p =
     (let q = min (max p epsilon) (1 - epsilon)
      in - (y * ln q + (1 - y) * ln (1 - q)))"

fun loss_value :: "loss_name \<Rightarrow> real list \<Rightarrow> real list \<Rightarrow> real" where
  "loss_value Binary_crossentropy ys ps = (\<Sum>(y, p)\<leftarrow>zip ys ps. binary_crossentropy y p) / real (length ys)"
| "loss_value Mean_squared_error ys ps = (\<Sum>(y, p)\<leftarrow>zip ys ps. (y - p)\<^sup>2) / real (length ys)"

text \<open>
  Modelled from the spec: the steps \<^verbatim>\<open>Model.fit\<close> runs on a batch are library code that is
  not part of the source. The loss of the compiled model on a batch is the compiled loss
  of the labels and of what the model returns for the batch's inputs, one probability per
  sample. A training step calls the model in training mode and has the optimizer change
  the weights so as to decrease that loss, as a function of the weights (\<open>minimize\<close>: the
  optimizer's arithmetic is external); a validation step calls the model outside training
  mode and only reports the loss.
\<close>

definition compiled_loss ::
  "weights \<Rightarrow> bool \<Rightarrow> (string \<Rightarrow> nat \<Rightarrow> nat \<Rightarrow> bool) \<Rightarrow> int list list list \<Rightarrow> int list \<Rightarrow> error + real" where
  "compiled_loss w training keep X y =
     and_then (model_call w training keep ensemble_model X)
       (\<lambda>P. if y = [] \<or> length P \<noteq> length y then Inl ValueError
            else Inr (loss_value (compile_loss ensemble_model_compile) (map real_of_int y) (map hd P)))"

definition train_step ::
  "(real \<Rightarrow> (weights \<Rightarrow> error + real) \<Rightarrow> weights \<Rightarrow> weights) \<Rightarrow> real \<Rightarrow> (string \<Rightarrow> nat \<Rightarrow> nat \<Rightarrow> bool) \<Rightarrow>
   weights \<Rightarrow> int list list list \<times> int list \<Rightarrow> error + weights \<times> real" where
  "train_step minimize lr keep w batch =
     (case batch of (X, y) \<Rightarrow>
        and_then (compiled_loss w True keep X y)
          (\<lambda>loss. Inr (minimize lr (\<lambda>w'. compiled_loss w' True keep X y) w, loss)))"

definition test_step ::
  "(string \<Rightarrow> nat \<Rightarrow> nat \<Rightarrow> bool) \<Rightarrow> weights \<Rightarrow> int list list list \<times> int list \<Rightarrow> error + real" where
  "test_step keep w batch = (case batch of (X, y) \<Rightarrow> compiled_loss w False keep X y)"

section \<open>The script, statement by statement\<close>

text \<open>
  The program is the sequence of its top-level statements. For the order in which things
  come to exist, a statement is its source line, the global names it reads and the global
  names it binds; an import binds the names it imports, a \<^verbatim>\<open>def\<close> binds the function's
  name (its body reads nothing until it is called), and names of Python's builtins are
  always bound and not listed. Reading a name that is not bound raises NameError, which
  ends the run.
\<close>

datatype stmt = Stmt nat "string list" "string list"

fun stmt_line :: "stmt \<Rightarrow> nat" where
  "stmt_line (Stmt line rs bs) = line"

fun reads :: "stmt \<Rightarrow> string list" where
  "reads (Stmt line rs bs) = rs"

fun binds :: "stmt \<Rightarrow> string list" where
  "binds (Stmt line rs bs) = bs"

definition exec :: "stmt \<Rightarrow> string list \<Rightarrow> error + string list" where
  "exec s env =
     (case find (\<lambda>n. n \<notin> set env) (reads s) of
        Some n \<Rightarrow> Inl (NameError n)
      | None \<Rightarrow> Inr (binds s @ env))"

fun run :: "stmt list \<Rightarrow> string list \<Rightarrow> error + string list" where
  "run [] env = Inr env"
| "run (s # ss) env = and_then (exec s env) (run ss)"

text \<open>
  Lines 1 to 128: the imports, the data, the graph, and fine-tuning, whose last statement
  binds \<^verbatim>\<open>history\<close> when \<^verbatim>\<open>ensemble_model.fit\<close> has returned, that is when Stage 1 has
  reached its end.
\<close>

definition stage1_statements :: "stmt list" where
  "stage1_statements =
     [
      Stmt 1 [] [''tf''],
      Stmt 2 [] [''TFBertModel'', ''BertTokenizer'', ''TFRobertaModel'', ''RobertaTokenizer''],
      Stmt 3 [] [''Input'', ''Dense'', ''Concatenate'', ''Lambda'', ''Dropout''],
      Stmt 4 [] [''Model''],
      Stmt 5 [] [''ReduceLROnPlateau'', ''EarlyStopping''],
      Stmt 6 [] [''np''],
      Stmt 7 [] [''pd''],
      Stmt 8 [] [''train_test_split''],
      Stmt 9 [] [''MLPClassifier''],
      Stmt 10 [] [''accuracy_score'', ''precision_score'', ''recall_score'', ''f1_score'', ''classification_report'', ''confusion_matrix''],
      Stmt 11 [] [''plt''],
      Stmt 12 [] [''sns''],
      Stmt 15 [''pd''] [''data''],
      Stmt 16 [''data''] [''texts''],
      Stmt 17 [''data''] [''labels''],
      Stmt 18 [''texts''] [],
      Stmt 20 [] [''max_seq_length''],
      Stmt 24 [''BertTokenizer''] [''bert_tokenizer''],
      Stmt 25 [''RobertaTokenizer''] [''roberta_tokenizer''],
      Stmt 27 [] [''tokenize_for_model''],
      Stmt 32 [''tokenize_for_model'', ''bert_tokenizer'', ''texts'', ''max_seq_length''] [''X_ids_bert'', ''X_mask_bert''],
      Stmt 33 [''tokenize_for_model'', ''roberta_tokenizer'', ''texts'', ''max_seq_length''] [''X_ids_roberta'', ''X_mask_roberta''],
      Stmt 38 [''train_test_split'', ''X_ids_bert'', ''X_mask_bert'', ''X_ids_roberta'', ''X_mask_roberta'', ''labels''] [''X_ids_bert_train'', ''X_ids_bert_test'', ''X_mask_bert_train'', ''X_mask_bert_test'', ''X_ids_roberta_train'', ''X_ids_roberta_test'', ''X_mask_roberta_train'', ''X_mask_roberta_test'', ''y_train'', ''y_test''],
      Stmt 47 [''np'', ''X_ids_bert_train''] [''X_ids_bert_train''],
      Stmt 48 [''np'', ''X_mask_bert_train''] [''X_mask_bert_train''],
      Stmt 49 [''np'', ''X_ids_bert_test''] [''X_ids_bert_test''],
      Stmt 50 [''np'', ''X_mask_bert_test''] [''X_mask_bert_test''],
      Stmt 52 [''np'', ''X_ids_roberta_train''] [''X_ids_roberta_train''],
      Stmt 53 [''np'', ''X_mask_roberta_train''] [''X_mask_roberta_train''],
      Stmt 54 [''np'', ''X_ids_roberta_test''] [''X_ids_roberta_test''],
      Stmt 55 [''np'', ''X_mask_roberta_test''] [''X_mask_roberta_test''],
      Stmt 57 [] [],
      Stmt 62 [''Input'', ''max_seq_length'', ''tf''] [''bert_input_ids''],
      Stmt 63 [''Input'', ''max_seq_length'', ''tf''] [''bert_attention''],
      Stmt 66 [''Input'', ''max_seq_length'', ''tf''] [''roberta_input_ids''],
      Stmt 67 [''Input'', ''max_seq_length'', ''tf''] [''roberta_attention''],
      Stmt 70 [''TFBertModel''] [''bert_model''],
      Stmt 71 [''bert_model''] [''layer''],
      Stmt 74 [] [''bert_branch''],
      Stmt 79 [''Lambda'', ''bert_branch'', ''bert_input_ids'', ''bert_attention'', ''bert_model''] [''bert_output''],
      Stmt 82 [''TFRobertaModel''] [''roberta_model''],
      Stmt 83 [''roberta_model''] [''layer''],
      Stmt 86 [] [''roberta_branch''],
      Stmt 91 [''Lambda'', ''roberta_branch'', ''roberta_input_ids'', ''roberta_attention'', ''roberta_model''] [''roberta_output''],
      Stmt 94 [''Concatenate'', ''bert_output'', ''roberta_output''] [''combined_embedding''],
      Stmt 97 [''Dense'', ''combined_embedding''] [''x''],
      Stmt 98 [''Dropout'', ''x''] [''x''],
      Stmt 99 [''Dense'', ''x''] [''x''],
      Stmt 100 [''Dropout'', ''x''] [''x''],
      Stmt 101 [''Dense'', ''x''] [''classifier_output''],
      Stmt 104 [''Model'', ''bert_input_ids'', ''bert_attention'', ''roberta_input_ids'', ''roberta_attention'', ''classifier_output''] [''ensemble_model''],
      Stmt 108 [''ensemble_model''] [],
      Stmt 112 [''tf''] [''optimizer''],
      Stmt 113 [''ensemble_model'', ''optimizer''] [],
      Stmt 118 [''ReduceLROnPlateau''] [''lr_scheduler''],
      Stmt 119 [''EarlyStopping''] [''early_stopper''],
      Stmt 121 [''ensemble_model'', ''X_ids_bert_train'', ''X_mask_bert_train'', ''X_ids_roberta_train'', ''X_mask_roberta_train'', ''y_train'', ''lr_scheduler'', ''early_stopper''] [''history'']
     ]"

text \<open>Lines 132 to 221: the extractor, the secondary classifier, its evaluation, the demo.\<close>

definition stage2_statements :: "stmt list" where
  "stage2_statements =
     [
      Stmt 132 [''Model'', ''bert_input_ids'', ''bert_attention'', ''roberta_input_ids'', ''roberta_attention'', ''combined_embedding''] [''embedding_extractor''],
      Stmt 136 [''embedding_extractor'', ''X_ids_bert_train'', ''X_mask_bert_train'', ''X_ids_roberta_train'', ''X_mask_roberta_train''] [''train_embeddings''],
      Stmt 140 [''embedding_extractor'', ''X_ids_bert_test'', ''X_mask_bert_test'', ''X_ids_roberta_test'', ''X_mask_roberta_test''] [''test_embeddings''],
      Stmt 144 [''train_embeddings''] [],
      Stmt 145 [''test_embeddings''] [],
      Stmt 148 [] [''MLPClassifier''],
      Stmt 151 [''MLPClassifier''] [''mlp_clf''],
      Stmt 152 [''mlp_clf'', ''train_embeddings'', ''y_train''] [],
      Stmt 156 [''mlp_clf'', ''test_embeddings''] [''preds''],
      Stmt 158 [''accuracy_score'', ''y_test'', ''preds''] [''acc''],
      Stmt 159 [''precision_score'', ''y_test'', ''preds''] [''prec''],
      Stmt 160 [''recall_score'', ''y_test'', ''preds''] [''rec''],
      Stmt 161 [''f1_score'', ''y_test'', ''preds''] [''f1''],
      Stmt 163 [] [],
      Stmt 164 [''acc''] [],
      Stmt 165 [''prec''] [],
      Stmt 166 [''rec''] [],
      Stmt 167 [''f1''] [],
      Stmt 168 [] [],
      Stmt 169 [''classification_report'', ''y_test'', ''preds''] [],
      Stmt 173 [''confusion_matrix'', ''y_test'', ''preds''] [''cm''],
      Stmt 174 [''plt''] [],
      Stmt 175 [''sns'', ''cm''] [],
      Stmt 178 [''plt''] [],
      Stmt 179 [''plt''] [],
      Stmt 180 [''plt''] [],
      Stmt 181 [''plt''] [],
      Stmt 183 [''acc'', ''prec'', ''rec'', ''f1''] [''metrics_dict''],
      Stmt 184 [''plt''] [],
      Stmt 185 [''sns'', ''metrics_dict''] [],
      Stmt 186 [''plt''] [],
      Stmt 187 [''plt''] [],
      Stmt 188 [''plt''] [],
      Stmt 189 [''plt''] [],
      Stmt 192 [] [''gr''],
      Stmt 193 [] [''np''],
      Stmt 195 [] [''predict_sarcasm''],
      Stmt 213 [''gr'', ''predict_sarcasm''] [''iface''],
      Stmt 221 [''iface''] []
     ]"

definition script :: "stmt list" where
  "script = stage1_statements @ stage2_statements"

text \<open>
  What Stage 2 uses: the statements that extract embeddings and that fit and apply the
  secondary classifier (lines 136, 140, 152, 156), and a call of \<^verbatim>\<open>predict_sarcasm\<close>
  (lines 195-211), whose body reads its globals when a request arrives.
\<close>

definition predict_sarcasm_call :: stmt where
  "predict_sarcasm_call =
     Stmt 195 [''predict_sarcasm'', ''bert_tokenizer'', ''max_seq_length'', ''np'', ''roberta_tokenizer'',
               ''embedding_extractor'', ''mlp_clf''] []"

definition stage2_operations :: "stmt list" where
  "stage2_operations = filter (\<lambda>s. stmt_line s \<in> {136, 140, 152, 156}) script @ [predict_sarcasm_call]"

definition stage2_names :: "string list" where
  "stage2_names = [''embedding_extractor'', ''train_embeddings'', ''test_embeddings'', ''mlp_clf'', ''preds'']"

definition raises_name_error :: "error + 'a \<Rightarrow> bool" where
  "raises_name_error r = (case r of Inl (NameError n) \<Rightarrow> True | _ \<Rightarrow> False)"

section \<open>What the program relies on from an encoder\<close>

text \<open>
  The comments of lines 77 and 89 and the declared output shapes of lines 79 and 91 say what
  the script expects of the pretrained encoders: one pooled vector per sample, one hidden
  vector per token of every sample, all of width 768.
\<close>

definition encoder_contract :: "encoder \<Rightarrow> bool" where
  "encoder_contract e \<longleftrightarrow>
     (\<forall>ids am. length (pooler_output (e ids am)) = length ids
        \<and> list_all (\<lambda>v. length v = 768) (pooler_output (e ids am))
        \<and> map length (last_hidden_state (e ids am)) = map length ids
        \<and> list_all (list_all (\<lambda>v. length v = 768)) (last_hidden_state (e ids am)))"

section \<open>Example data\<close>

text \<open>
  Concrete collaborators on which the theorems below are run: an encoder whose pooled
  vector is constant and whose token vectors depend on the token id, weights with zero
  kernels and biases, a keep-mask, and a batch of one row of token ids.
\<close>

definition example_encoder :: "real \<Rightarrow> encoder" where
  "example_encoder c ids am =
     \<lparr>pooler_output = map (\<lambda>row. replicate 768 c) ids,
      last_hidden_state = map (\<lambda>row. map (\<lambda>t. replicate 768 (c + real_of_int t)) row) ids\<rparr>"

definition example_weights :: weights where
  "example_weights =
     \<lparr>bert_model = example_encoder 1, roberta_model = example_encoder 2,
      kernel = (\<lambda>name i j. 0), bias = (\<lambda>name j. 0)\<rparr>"

definition example_rng :: "string \<Rightarrow> nat \<Rightarrow> nat \<Rightarrow> bool" where
  "example_rng name i j = even (i + j)"

definition example_ids :: "int list list" where
  "example_ids = [replicate 70 5]"

text \<open>
  A second batch, and weights whose head is not constant: the first dense layer reads the
  first component of the RoBERTa half of the embedding into its first unit, the later
  layers pass their first unit on, and the output unit has bias -6.
\<close>

definition example_ids2 :: "int list list" where
  "example_ids2 = [replicate 70 4]"

definition example_head_weights :: weights where
  "example_head_weights =
     \<lparr>bert_model = example_encoder 1, roberta_model = example_encoder 2,
      kernel = (\<lambda>name i j. if name = ''dense'' then (if i = 768 \<and> j = 0 then 1 else 0)
                            else (if i = 0 \<and> j = 0 then 1 else 0)),
      bias = (\<lambda>name j. if name = ''classifier_output'' then - 6 else 0)\<rparr>"

text \<open>
  Two toy tokenizers that take the character codes as word pieces, a fitted classifier
  with zero coefficients, and the globals of a serving process made of them.
\<close>

definition example_bert_tokenizer :: tokenizer where
  "example_bert_tokenizer =
     \<lparr>encode_text = map (\<lambda>c. int (of_char c)), cls_token_id = 101, sep_token_id = 102, pad_token_id = 0\<rparr>"

definition example_roberta_tokenizer :: tokenizer where
  "example_roberta_tokenizer =
     \<lparr>encode_text = map (\<lambda>c. 3 + int (of_char c)), cls_token_id = 0, sep_token_id = 2, pad_token_id = 1\<rparr>"

definition example_mlp_clf :: mlp_classifier where
  "example_mlp_clf = mlp_clf\<lparr>classes := [0, 1], n_features_in := 1536\<rparr>"

definition example_globals :: globals where
  "example_globals =
     \<lparr>bert_tokenizer = example_bert_tokenizer, roberta_tokenizer = example_roberta_tokenizer,
      ensemble_weights = example_weights, fitted_mlp_clf = example_mlp_clf\<rparr>"

text \<open>
  An optimizer that starts from zero coefficients, leaves them as they are and reports
  convergence at the third iteration, and the classifier it yields on one sample of label 1.
\<close>

definition example_optimizer :: mlp_optimizer where
  "example_optimizer =
     \<lparr>initialise = (\<lambda>seed units. ((\<lambda>l i j. 0), (\<lambda>l j. 0))),
      update = (\<lambda>rate X y p. p),
      stop_now = (\<lambda>X y it p. 3 \<le> it)\<rparr>"

definition example_fitted :: mlp_classifier where
  "example_fitted = mlp_clf\<lparr>classes := [1], n_features_in := 1536, n_iter := 3\<rparr>"

text \<open>
  A dataset of five rows, each array holding its own numbers so that rows can be told
  apart, and a permutation of the five row numbers.
\<close>

definition example_perm :: "nat list" where
  "example_perm = [2, 0, 3, 1, 4]"

definition example_labels :: "int list" where
  "example_labels = [0, 1, 0, 1, 1]"

definition example_rows :: "int \<Rightarrow> int list list" where
  "example_rows c = [[c], [c + 1], [c + 2], [c + 3], [c + 4]]"

text \<open>
  A trainer whose weights count the epochs trained, with the best validation loss after
  the first epoch and a worse, constant one from then on.
\<close>

definition example_trainer :: "nat trainer" where
  "example_trainer = \<lparr>train_epoch = (\<lambda>epoch lr w. Suc w), val_loss = (\<lambda>w. if w = 1 then 5 else 6)\<rparr>"

section \<open>Invariants of the training loop\<close>

text \<open>
  What holds between two epochs of \<open>fit_epochs\<close> under the callbacks of the script. For
  early stopping: the run has not been stopped; the best loss is the least validation loss
  seen so far, reached at the best epoch; the best weights have that loss; and the wait
  counts the epochs since the best one and is below the patience. When the callback stops
  the run, the model holds the best weights, four epochs after the best one. For the
  learning rate: it is the initial rate halved some number of times.
\<close>

definition es_invariant :: "'w trainer \<Rightarrow> nat \<Rightarrow> 'w training \<Rightarrow> bool" where
  "es_invariant tr epoch s \<longleftrightarrow>
     \<not> stop_training s \<and> length (val_loss_history s) = epoch
     \<and> es_patience (stopper s) = 4 \<and> es_min_delta (stopper s) = 0 \<and> es_restore_best_weights (stopper s)
     \<and> (if epoch = 0
         then es_best (stopper s) = None \<and> es_best_weights (stopper s) = None \<and> es_wait (stopper s) = 0
         else es_best (stopper s) = Some (Min (set (val_loss_history s)))
            \<and> es_best_epoch (stopper s) + es_wait (stopper s) + 1 = epoch
            \<and> val_loss_history s ! es_best_epoch (stopper s) = Min (set (val_loss_history s))
            \<and> (\<exists>bw. es_best_weights (stopper s) = Some bw \<and> val_loss tr bw = Min (set (val_loss_history s)))
            \<and> es_wait (stopper s) < 4)"

definition es_stopped :: "'w trainer \<Rightarrow> 'w training \<Rightarrow> bool" where
  "es_stopped tr s \<longleftrightarrow>
     stop_training s
     \<and> es_best_weights (stopper s) = Some (model_weights s)
     \<and> val_loss tr (model_weights s) = Min (set (val_loss_history s))
     \<and> val_loss_history s ! es_best_epoch (stopper s) = Min (set (val_loss_history s))
     \<and> length (val_loss_history s) = es_best_epoch (stopper s) + 5
     \<and> es_stopped_epoch (stopper s) + 1 = length (val_loss_history s)"

definition lr_invariant :: "real \<Rightarrow> 'w training \<Rightarrow> bool" where
  "lr_invariant lr0 s \<longleftrightarrow>
     lr_factor (scheduler s) = 1 / 2 \<and> lr_min_lr (scheduler s) = 0 \<and> lr_cooldown (scheduler s) = 0
     \<and> lr_cooldown_counter (scheduler s) = 0 \<and> (\<exists>k. learning_rate s = lr0 * (1 / 2) ^ k)"

section \<open>Basic facts\<close>

lemma and_then_Inr_iff: "and_then r f = Inr y \<longleftrightarrow> (\<exists>x. r = Inr x \<and> f x = Inr y)"
  by (cases r) (simp_all add: and_then_def)

lemma and_then_simps [simp]: "and_then (Inl e) f = Inl e" "and_then (Inr x) f = f x"
  by (simp_all add: and_then_def)

lemma first_token_map:
  "\<not> list_ex (\<lambda>tokens. tokens = []) H \<Longrightarrow> map (\<lambda>tokens. tokens ! 0) H = map hd H"
  by (induction H) (simp_all add: hd_conv_nth)

lemma roberta_branch_eq:
  "roberta_branch w (ids, am) =
     (if list_ex (\<lambda>tokens. tokens = []) (last_hidden_state (roberta_model w ids am)) then Inl IndexError
      else Inr (map hd (last_hidden_state (roberta_model w ids am))))"
  by (simp add: roberta_branch_def Let_def first_token_map)

lemmas graph_defs =
  combined_embedding_def bert_output_def roberta_output_def bert_input_ids_def bert_attention_def
  roberta_input_ids_def roberta_attention_def

lemma extractor_feed:
  "map_of (zip (map input_name (model_inputs embedding_extractor)) [bi, bm, ri, rm]) =
     (\<lambda>n. if n = ''bert_input_ids'' then Some bi else if n = ''bert_attention_mask'' then Some bm
      else if n = ''roberta_input_ids'' then Some ri else if n = ''roberta_attention_mask'' then Some rm else None)"
  by (rule ext) (simp add: embedding_extractor_def graph_defs)

lemma combined_embedding_forward:
  assumes "forward w tr keep feed combined_embedding = Inr E"
  shows "\<exists>bi bm ri rm. read_input feed bert_input_ids = Inr bi \<and> read_input feed bert_attention = Inr bm
     \<and> read_input feed roberta_input_ids = Inr ri \<and> read_input feed roberta_attention = Inr rm
     \<and> length (pooler_output (bert_model w bi bm)) = length (last_hidden_state (roberta_model w ri rm))
     \<and> \<not> list_ex (\<lambda>tokens. tokens = []) (last_hidden_state (roberta_model w ri rm))
     \<and> E = map2 (@) (pooler_output (bert_model w bi bm)) (map hd (last_hidden_state (roberta_model w ri rm)))"
  using assms
  apply (simp add: combined_embedding_def bert_output_def roberta_output_def and_then_Inr_iff)
  apply (auto simp: bert_branch_def roberta_branch_def Let_def first_token_map split: if_splits)
  done

lemma extractor_call_Inr:
  assumes "model_call w tr keep embedding_extractor [bi, bm, ri, rm] = Inr E"
  shows "length (pooler_output (bert_model w bi bm)) = length (last_hidden_state (roberta_model w ri rm))
     \<and> \<not> list_ex (\<lambda>tokens. tokens = []) (last_hidden_state (roberta_model w ri rm))
     \<and> E = map2 (@) (pooler_output (bert_model w bi bm)) (map hd (last_hidden_state (roberta_model w ri rm)))"
proof -
  let ?feed = "map_of (zip (map input_name (model_inputs embedding_extractor)) [bi, bm, ri, rm])"
  from assms have fw: "forward w tr keep ?feed combined_embedding = Inr E"
    by (simp add: model_call_def embedding_extractor_def split: if_splits)
  from combined_embedding_forward [OF fw] obtain bi' bm' ri' rm' where
    r: "read_input ?feed bert_input_ids = Inr bi'" "read_input ?feed bert_attention = Inr bm'"
       "read_input ?feed roberta_input_ids = Inr ri'" "read_input ?feed roberta_attention = Inr rm'"
    and rest: "length (pooler_output (bert_model w bi' bm')) = length (last_hidden_state (roberta_model w ri' rm'))"
       "\<not> list_ex (\<lambda>tokens. tokens = []) (last_hidden_state (roberta_model w ri' rm'))"
       "E = map2 (@) (pooler_output (bert_model w bi' bm')) (map hd (last_hidden_state (roberta_model w ri' rm')))"
    by blast
  from r have "bi' = bi" "bm' = bm" "ri' = ri" "rm' = rm"
    by (auto simp: extractor_feed graph_defs split: if_splits)
  with rest show ?thesis by simp
qed

lemma example_predict:
  "predict example_weights example_rng embedding_extractor [example_ids, example_ids, example_ids, example_ids]
     = Inr [replicate 768 1 @ replicate 768 7]"
  by (simp add: predict_def model_call_def embedding_extractor_def graph_defs max_seq_length_def
      example_ids_def example_weights_def example_encoder_def bert_branch_def roberta_branch_def)


lemma first_token_widths:
  "list_all (list_all (\<lambda>v. length v = n)) H \<Longrightarrow> \<not> list_ex (\<lambda>tokens. tokens = []) H \<Longrightarrow>
     list_all (\<lambda>v. length v = n) (map hd H)"
  by (induction H) (auto simp: list_all_iff)

lemma forward_inference_mask:
  "forward w False keep1 feed l = forward w False keep2 feed l"
  "forward_all w False keep1 feed ls = forward_all w False keep2 feed ls"
  by (induction w False keep1 feed l and w False keep1 feed ls rule: forward_forward_all.induct)
     (simp_all add: dropout_call_def)

lemma forward_no_dropout:
  "stochastic_layers l = [] \<Longrightarrow> forward w t1 keep1 feed l = forward w t2 keep2 feed l"
  "stochastic_layers_all ls = [] \<Longrightarrow> forward_all w t1 keep1 feed ls = forward_all w t2 keep2 feed ls"
  by (induction w t1 keep1 feed l and w t1 keep1 feed ls rule: forward_forward_all.induct) simp_all

lemma extractor_no_dropout: "stochastic_layers (model_outputs embedding_extractor) = []"
  by (simp add: embedding_extractor_def graph_defs)

lemma extractor_call_mode:
  "model_call w t1 keep1 embedding_extractor xs = model_call w t2 keep2 embedding_extractor xs"
  using forward_no_dropout(1) [OF extractor_no_dropout]
  by (simp add: model_call_def)

lemma classifier_output_forward:
  "forward w training keep feed classifier_output =
     and_then (forward w training keep feed combined_embedding)
       (\<lambda>E. Inr (dense_call 1 Sigmoid (kernel w ''classifier_output'') (bias w ''classifier_output'')
               (dropout_call (3 / 10) training (keep ''dropout_1'')
                 (dense_call 64 Relu (kernel w ''dense_1'') (bias w ''dense_1'')
                   (dropout_call (3 / 10) training (keep ''dropout'')
                     (dense_call 128 Relu (kernel w ''dense'') (bias w ''dense'') E))))))"
  by (cases "forward w training keep feed combined_embedding") (simp_all add: classifier_output_def)

lemma ensemble_call_eq:
  "model_call w training keep ensemble_model xs =
     and_then (model_call w training keep embedding_extractor xs)
       (\<lambda>E. Inr (dense_call 1 Sigmoid (kernel w ''classifier_output'') (bias w ''classifier_output'')
               (dropout_call (3 / 10) training (keep ''dropout_1'')
                 (dense_call 64 Relu (kernel w ''dense_1'') (bias w ''dense_1'')
                   (dropout_call (3 / 10) training (keep ''dropout'')
                     (dense_call 128 Relu (kernel w ''dense'') (bias w ''dense'') E))))))"
  by (simp add: model_call_def ensemble_model_def embedding_extractor_def classifier_output_forward)

lemma sigmoid_range: "0 < sigmoid x \<and> sigmoid x < 1"
proof -
  have pos: "0 < exp (- x)" by simp
  then have one: "1 < 1 + exp (- x)" by simp
  then have den: "0 < 1 + exp (- x)" by linarith
  then have "0 < 1 / (1 + exp (- x))" by simp
  moreover have "1 / (1 + exp (- x)) < 1"
    using one den by (simp only: divide_less_eq_1_pos)
  ultimately show ?thesis by (simp only: sigmoid_def)
qed

lemma dense_call_widths: "list_all (\<lambda>h. length h = units) (dense_call units act K b X)"
  by (simp add: dense_call_def list_all_iff)

lemma dense_sigmoid_rows:
  "list_all (\<lambda>p. length p = 1 \<and> 0 \<le> hd p \<and> hd p \<le> 1) (dense_call 1 Sigmoid K b X)"
  using sigmoid_range
  by (auto simp: dense_call_def dense_unit_def list_all_iff less_imp_le)

lemma dropout_inference: "dropout_call rate False keep X = X"
  by (simp add: dropout_call_def)

lemma dropout_training:
  assumes "i < length X" "j < length (X ! i)"
  shows "dropout_call rate True keep X ! i ! j = (if keep i j then X ! i ! j / (1 - rate) else 0)"
  using assms by (simp add: dropout_call_def nth_enumerate_eq)

lemma dense_call_nth:
  assumes "i < length X" "j < units"
  shows "dense_call units Relu K b X ! i ! j = max 0 ((\<Sum>k\<leftarrow>[0..<length (X ! i)]. X ! i ! k * K k j) + b j)"
    and "dense_call units Sigmoid K b X ! i ! j
           = 1 / (1 + exp (- ((\<Sum>k\<leftarrow>[0..<length (X ! i)]. X ! i ! k * K k j) + b j)))"
  using assms by (simp_all add: dense_call_def dense_unit_def relu_def sigmoid_def)

lemma dense_call_shape:
  "length (dense_call units act K b X) = length X"
  by (simp add: dense_call_def)

lemma dropout_shape: "map length (dropout_call rate training m X) = map length X"
proof (cases training)
  case False
  then show ?thesis by (simp add: dropout_call_def)
next
  case True
  have "map length (dropout_call rate True m X) = map (length \<circ> snd) (enumerate 0 X)"
    by (simp add: dropout_call_def comp_def split_def)
  also have "\<dots> = map length X" by (metis map_map map_snd_enumerate)
  finally show ?thesis using True by simp
qed

lemma sum_map_upt:
  "(\<Sum>i\<leftarrow>[0..<length (map f [0..<n])]. map f [0..<n] ! i * g i) = (\<Sum>i\<leftarrow>[0..<n]. f i * (g i :: real))"
proof -
  have eq: "map (\<lambda>i. map f [0..<n] ! i * g i) [0..<n] = map (\<lambda>i. f i * g i) [0..<n]"
    by (intro map_cong refl) simp
  have len: "length (map f [0..<n]) = n" by simp
  show ?thesis unfolding len by (rule arg_cong [where f = sum_list]) (rule eq)
qed

lemma dense_unit_after:
  "dense_unit act K b (map f [0..<n]) = (\<lambda>j. activate act ((\<Sum>i\<leftarrow>[0..<n]. f i * K i j) + b j))"
  by (rule ext) (simp only: dense_unit_def sum_map_upt)

lemma head_inference:
  "dense_call 1 Sigmoid K3 b3 (dense_call 64 Relu K2 b2 (dense_call 128 Relu K1 b1 E)) =
     map (\<lambda>x. [1 / (1 + exp (- ((\<Sum>j\<leftarrow>[0..<64].
                    max 0 ((\<Sum>i\<leftarrow>[0..<128].
                       max 0 ((\<Sum>k\<leftarrow>[0..<length x]. x ! k * K1 k i) + b1 i) * K2 i j) + b2 j) * K3 j 0)
                  + b3 0)))]) E"
  apply (simp only: dense_call_def map_map comp_def dense_unit_after)
  apply (simp add: dense_unit_def relu_def sigmoid_def)
  done


lemma sum_pick:
  "(\<Sum>k\<leftarrow>[0..<n]. f k * (if k = a \<and> c then (1 :: real) else 0)) = (if a < n \<and> c then f a else 0)"
  by (induction n) (auto simp: less_Suc_eq)

lemma sum_pick_one:
  "(\<Sum>k\<leftarrow>[0..<n]. f k * (if k = a then (1 :: real) else 0)) = (if a < n then f a else 0)"
  using sum_pick [where n = n and f = f and a = a and c = True] by simp

lemma map_enumerate_snd: "map (\<lambda>(i, x). f x) (enumerate n xs) = map f xs"
  by (induction xs arbitrary: n) simp_all

lemma dropout_none: "dropout_call rate True (\<lambda>i j. False) X = map (map (\<lambda>v. 0)) X"
  by (simp add: dropout_call_def map_enumerate_snd)

lemma dense_on_zeros:
  "dense_call units act K b (map (map (\<lambda>v. 0)) (X :: real list list)) = map (\<lambda>x. map (\<lambda>j. activate act (b j)) [0..<units]) X"
proof -
  have z: "(\<Sum>i\<leftarrow>[0..<length x]. map (\<lambda>v. 0) x ! i * K i j) = 0" for x :: "real list" and j
  proof -
    have eq: "map (\<lambda>i. map (\<lambda>v. 0) x ! i * K i j) [0..<length x] = map (\<lambda>i. 0) [0..<length x]"
      by (intro map_cong refl) simp
    show ?thesis unfolding eq by simp
  qed
  have len: "length (map (\<lambda>v. 0 :: real) x) = length x" for x :: "real list" by simp
  have unit: "dense_unit act K b (map (\<lambda>v. 0) x) = (\<lambda>j. activate act (b j))" for x :: "real list"
    by (rule ext) (simp only: dense_unit_def len z add_0)
  show ?thesis
    by (simp only: dense_call_def map_map comp_def unit)
qed

lemma head_all_dropped:
  "dense_call 1 Sigmoid K3 b3 (dropout_call rate True (\<lambda>i j. False) Y)
     = map (\<lambda>y. [1 / (1 + exp (- b3 0))]) Y"
  by (simp add: dropout_none dense_on_zeros sigmoid_def)

lemma example_head_extractor:
  "model_call example_head_weights training keep embedding_extractor [example_ids, example_ids, example_ids, example_ids]
     = Inr [replicate 768 1 @ replicate 768 7]"
  "model_call example_head_weights training keep embedding_extractor [example_ids2, example_ids2, example_ids2, example_ids2]
     = Inr [replicate 768 1 @ replicate 768 6]"
  by (simp_all add: model_call_def embedding_extractor_def graph_defs max_seq_length_def
      example_ids_def example_ids2_def example_head_weights_def example_encoder_def bert_branch_def roberta_branch_def)

lemma ensemble_inference:
  "model_call w False keep ensemble_model xs =
     and_then (model_call w False keep embedding_extractor xs)
       (\<lambda>E. Inr (map (\<lambda>x. [1 / (1 + exp (- ((\<Sum>j\<leftarrow>[0..<64].
                    max 0 ((\<Sum>i\<leftarrow>[0..<128].
                       max 0 ((\<Sum>k\<leftarrow>[0..<length x]. x ! k * kernel w ''dense'' k i) + bias w ''dense'' i)
                         * kernel w ''dense_1'' i j) + bias w ''dense_1'' j)
                      * kernel w ''classifier_output'' j 0)
                  + bias w ''classifier_output'' 0)))]) E))"
  by (simp only: ensemble_call_eq dropout_inference head_inference)

lemma ensemble_all_dropped:
  "model_call w True (\<lambda>name i j. False) ensemble_model xs =
     and_then (model_call w True (\<lambda>name i j. False) embedding_extractor xs)
       (\<lambda>E. Inr (map (\<lambda>x. [1 / (1 + exp (- bias w ''classifier_output'' 0))]) E))"
proof -
  have "dense_call 1 Sigmoid K3 b3 (dropout_call r True (\<lambda>i j. False)
          (dense_call 64 Relu K2 b2 (dropout_call r True (\<lambda>i j. False) (dense_call 128 Relu K1 b1 E))))
        = map (\<lambda>x. [1 / (1 + exp (- b3 0))]) E" for K1 K2 K3 b1 b2 b3 r E
    by (simp only: head_all_dropped) (simp add: dropout_none dense_call_def comp_def)
  then show ?thesis by (simp only: ensemble_call_eq)
qed

lemma loss_value_eq:
  "loss_value (compile_loss ensemble_model_compile) ys ps =
     (\<Sum>(y, p)\<leftarrow>zip ys ps.
         - (y * ln (min (max p (1 / 10000000)) (1 - 1 / 10000000))
            + (1 - y) * ln (1 - min (max p (1 / 10000000)) (1 - 1 / 10000000)))) / real (length ys)"
proof -
  have clipped: "binary_crossentropy =
      (\<lambda>y p. - (y * ln (min (max p (1 / 10000000)) (1 - 1 / 10000000))
               + (1 - y) * ln (1 - min (max p (1 / 10000000)) (1 - 1 / 10000000))))"
    by (intro ext) (simp only: binary_crossentropy_def epsilon_def Let_def)
  show ?thesis
    by (simp only: ensemble_model_compile_def compile_args.simps loss_value.simps clipped)
qed

lemma compiled_loss_eq:
  "compiled_loss w training keep X y =
     and_then (model_call w training keep ensemble_model X)
       (\<lambda>P. if y = [] \<or> length P \<noteq> length y then Inl ValueError
            else Inr ((\<Sum>(t, p)\<leftarrow>zip (map real_of_int y) (map hd P).
                        - (t * ln (min (max p (1 / 10000000)) (1 - 1 / 10000000))
                           + (1 - t) * ln (1 - min (max p (1 / 10000000)) (1 - 1 / 10000000))))
                      / real (length y)))"
  by (simp only: compiled_loss_def loss_value_eq length_map)

lemma step_eq:
  "test_step keep w (X, y) = compiled_loss w False keep X y"
  "train_step minimize lr keep w (X, y) =
     and_then (compiled_loss w True keep X y)
       (\<lambda>loss. Inr (minimize lr (\<lambda>w'. compiled_loss w' True keep X y) w, loss))"
  by (simp_all only: test_step_def train_step_def prod.case)

lemma ensemble_range:
  "model_call w training keep ensemble_model xs = Inr P \<longrightarrow>
     list_all (\<lambda>p. length p = 1 \<and> 0 \<le> hd p \<and> hd p \<le> 1) P"
proof
  assume "model_call w training keep ensemble_model xs = Inr P"
  then obtain E where "P = dense_call 1 Sigmoid (kernel w ''classifier_output'') (bias w ''classifier_output'')
             (dropout_call (3 / 10) training (keep ''dropout_1'')
               (dense_call 64 Relu (kernel w ''dense_1'') (bias w ''dense_1'')
                 (dropout_call (3 / 10) training (keep ''dropout'')
                   (dense_call 128 Relu (kernel w ''dense'') (bias w ''dense'') E))))"
    by (auto simp: ensemble_call_eq and_then_Inr_iff)
  then show "list_all (\<lambda>p. length p = 1 \<and> 0 \<le> hd p \<and> hd p \<le> 1) P"
    using dense_sigmoid_rows by simp
qed

lemma ensemble_inference_mask:
  "model_call w False keep ensemble_model xs = model_call w False keep' ensemble_model xs"
  using forward_inference_mask(1) by (simp add: model_call_def)

lemma exp_6_bound: "exp (6 :: real) \<le> 729"
proof -
  have "exp (6 :: real) = exp (of_nat 6 * 1)" by simp
  also have "\<dots> = exp 1 ^ 6" by (rule exp_of_nat_mult)
  also have "\<dots> \<le> 3 ^ 6" by (rule power_mono) (simp_all add: exp_le)
  finally show ?thesis by simp
qed

lemma example_head_params:
  "kernel example_head_weights ''dense'' k i = (if k = 768 \<and> i = 0 then 1 else 0)"
  "kernel example_head_weights ''dense_1'' k i = (if k = 0 \<and> i = 0 then 1 else 0)"
  "kernel example_head_weights ''classifier_output'' k 0 = (if k = 0 then 1 else 0)"
  "bias example_head_weights ''dense'' i = 0"
  "bias example_head_weights ''dense_1'' i = 0"
  "bias example_head_weights ''classifier_output'' i = - 6"
  by (simp_all add: example_head_weights_def)

lemma example_clip:
  "min (max (1 / (1 + exp (6 :: real))) (1 / 10000000)) (1 - 1 / 10000000) = 1 / (1 + exp 6)"
  "min (max (1 / (1 + exp (6 :: real))) (1 / 10000000)) (9999999 / 10000000) = 1 / (1 + exp 6)"
proof -
  have pos: "0 < exp (6 :: real)" by simp
  then have den: "0 < 1 + exp (6 :: real)" by linarith
  have "1 + exp (6 :: real) \<le> 10000000" using exp_6_bound by linarith
  then have lo: "1 / 10000000 \<le> 1 / (1 + exp (6 :: real))"
    using den frac_le [where x = 1 and y = 1 and w = "1 + exp (6 :: real)" and z = 10000000] by simp
  have "1 \<le> exp (6 :: real)" by simp
  then have "2 \<le> 1 + exp (6 :: real)" by linarith
  then have "1 / (1 + exp (6 :: real)) \<le> 1 / 2"
    using frac_le [where x = 1 and y = 1 and w = 2 and z = "1 + exp (6 :: real)"] by simp
  then have hi: "1 / (1 + exp (6 :: real)) \<le> 1 - 1 / 10000000" by linarith
  show first: "min (max (1 / (1 + exp (6 :: real))) (1 / 10000000)) (1 - 1 / 10000000) = 1 / (1 + exp 6)"
    using lo hi by (simp only: max_absorb1 min_absorb1)
  have "(9999999 / 10000000 :: real) = 1 - 1 / 10000000" by simp
  then show "min (max (1 / (1 + exp (6 :: real))) (1 / 10000000)) (9999999 / 10000000) = 1 / (1 + exp 6)"
    using first by (simp only:)
qed

lemma sigmoid_zero: "sigmoid 0 = 1 / 2"
  by (simp add: sigmoid_def)

lemma tokenizer_call_lengths:
  assumes "2 \<le> max_len"
  shows "length (fst (tokenizer_call tok text max_len)) = max_len"
    and "length (snd (tokenizer_call tok text max_len)) = max_len"
  using assms by (auto simp: tokenizer_call_def Let_def)

lemma example_encoder_contract: "encoder_contract (example_encoder c)"
  by (simp add: encoder_contract_def example_encoder_def list_all_iff comp_def)

lemma no_empty_rows:
  assumes "map length H = map length ids" "list_all (\<lambda>row. length row = n) ids" "0 < n"
  shows "\<not> list_ex (\<lambda>tokens. tokens = []) H"
proof
  assume "list_ex (\<lambda>tokens. tokens = []) H"
  then have "0 \<in> set (map length H)" by (auto simp: list_ex_iff)
  then have "0 \<in> set (map length ids)" using assms(1) by simp
  then show False using assms(2,3) by (auto simp: list_all_iff)
qed

lemma extractor_predict_ok:
  assumes cb: "encoder_contract (bert_model w)" and cr: "encoder_contract (roberta_model w)"
    and rows: "list_all (\<lambda>row. length row = max_seq_length) bi" "list_all (\<lambda>row. length row = max_seq_length) bm"
      "list_all (\<lambda>row. length row = max_seq_length) ri" "list_all (\<lambda>row. length row = max_seq_length) rm"
    and batch: "length bi = length ri"
  shows "predict w rng embedding_extractor [bi, bm, ri, rm] =
           Inr (map2 (@) (pooler_output (bert_model w bi bm)) (map hd (last_hidden_state (roberta_model w ri rm))))"
proof -
  have ne: "\<not> list_ex (\<lambda>tokens. tokens = []) (last_hidden_state (roberta_model w ri rm))"
    using cr rows(3) by (intro no_empty_rows [of _ ri max_seq_length]) (simp_all add: encoder_contract_def max_seq_length_def)
  have "length (last_hidden_state (roberta_model w ri rm)) = length ri"
    using cr by (metis encoder_contract_def length_map)
  then have len: "length (pooler_output (bert_model w bi bm)) = length (last_hidden_state (roberta_model w ri rm))"
    using cb batch by (simp add: encoder_contract_def)
  show ?thesis
    using rows ne len
    by (simp add: predict_def model_call_def embedding_extractor_def graph_defs bert_branch_def roberta_branch_eq)
qed

lemma mlp_predict_length: "mlp_predict clf X = Inr pred \<Longrightarrow> length pred = length X"
  by (auto simp: mlp_predict_def split: if_splits)

lemma predict_sarcasm_eq:
  assumes "encoder_contract (bert_model (ensemble_weights g))"
    and "encoder_contract (roberta_model (ensemble_weights g))"
    and "classes (fitted_mlp_clf g) \<noteq> []"
    and "n_features_in (fitted_mlp_clf g) = 1536"
  shows "\<exists>e. predict (ensemble_weights g) rng embedding_extractor
               [[fst (tokenizer_call (bert_tokenizer g) text max_seq_length)],
                [snd (tokenizer_call (bert_tokenizer g) text max_seq_length)],
                [fst (tokenizer_call (roberta_tokenizer g) text max_seq_length)],
                [snd (tokenizer_call (roberta_tokenizer g) text max_seq_length)]] = Inr [e]
          \<and> predict_sarcasm g rng text =
              Inr (PyStr (if mlp_predict_row (fitted_mlp_clf g) e = 1 then sarcastic else not_sarcastic))"
proof -
  let ?w = "ensemble_weights g"
  let ?bi = "[fst (tokenizer_call (bert_tokenizer g) text max_seq_length)]"
  let ?bm = "[snd (tokenizer_call (bert_tokenizer g) text max_seq_length)]"
  let ?ri = "[fst (tokenizer_call (roberta_tokenizer g) text max_seq_length)]"
  let ?rm = "[snd (tokenizer_call (roberta_tokenizer g) text max_seq_length)]"
  let ?P = "pooler_output (bert_model ?w ?bi ?bm)"
  let ?H = "last_hidden_state (roberta_model ?w ?ri ?rm)"
  have two: "2 \<le> max_seq_length" by (simp add: max_seq_length_def)
  have rows: "list_all (\<lambda>row. length row = max_seq_length) ?bi" "list_all (\<lambda>row. length row = max_seq_length) ?bm"
      "list_all (\<lambda>row. length row = max_seq_length) ?ri" "list_all (\<lambda>row. length row = max_seq_length) ?rm"
    using tokenizer_call_lengths [OF two] by simp_all
  have pred: "predict ?w rng embedding_extractor [?bi, ?bm, ?ri, ?rm] = Inr (map2 (@) ?P (map hd ?H))"
    using extractor_predict_ok [OF assms(1,2) rows] by simp
  have lenP: "length ?P = 1" using assms(1) by (simp add: encoder_contract_def)
  have "map length ?H = map length ?ri" using assms(2) by (simp add: encoder_contract_def)
  then have lenH: "length ?H = 1" by (metis length_map list.size(3,4) One_nat_def add_0)
  from lenP obtain p where P: "?P = [p]" by (cases ?P) auto
  from lenH obtain h where H: "?H = [h]" by (cases ?H) auto
  have "list_all (\<lambda>v. length v = 768) ?P" using assms(1) by (simp add: encoder_contract_def)
  then have wP: "length p = 768" using P by simp
  have wH: "list_all (list_all (\<lambda>v. length v = 768)) ?H" using assms(2) by (simp add: encoder_contract_def)
  have ne: "\<not> list_ex (\<lambda>tokens. tokens = []) ?H"
    using assms(2) rows(3) by (intro no_empty_rows [of _ ?ri max_seq_length]) (simp_all add: encoder_contract_def max_seq_length_def)
  have wh: "length (hd h) = 768"
    using first_token_widths [OF wH ne] H by simp
  have E: "predict ?w rng embedding_extractor [?bi, ?bm, ?ri, ?rm] = Inr [p @ hd h]"
    using pred P H by simp
  have mlp: "mlp_predict (fitted_mlp_clf g) [p @ hd h] = Inr [mlp_predict_row (fitted_mlp_clf g) (p @ hd h)]"
    using assms(3,4) wP wh by (simp add: mlp_predict_def)
  have "predict_sarcasm g rng text =
          Inr (PyStr (if mlp_predict_row (fitted_mlp_clf g) (p @ hd h) = 1 then sarcastic else not_sarcastic))"
    unfolding predict_sarcasm_def Let_def by (simp only: E and_then_simps mlp list.case)
  with E show ?thesis by blast
qed


lemma mlp_layer_zero: "mlp_layer act (\<lambda>i j. 0) (\<lambda>j. 0) units x = replicate units (act 0)"
proof -
  have "map (\<lambda>j. act 0) [0..<units] = replicate units (act 0)"
    by (simp add: map_replicate_const)
  then show ?thesis by (simp add: mlp_layer_def)
qed

lemma example_mlp_predict_row: "mlp_predict_row example_mlp_clf x = 0"
  by (simp add: mlp_predict_row_def example_mlp_clf_def mlp_clf_def mlp_scores_def mlp_layer_zero sigmoid_zero)

lemma example_globals_ok:
  "encoder_contract (bert_model (ensemble_weights example_globals))"
  "encoder_contract (roberta_model (ensemble_weights example_globals))"
  "classes (fitted_mlp_clf example_globals) \<noteq> []"
  "n_features_in (fitted_mlp_clf example_globals) = 1536"
  by (simp_all add: example_globals_def example_weights_def example_encoder_contract example_mlp_clf_def)

lemma example_predict_sarcasm:
  "predict_sarcasm example_globals example_rng ''oh great, another meeting'' = Inr (PyStr not_sarcastic)"
  using predict_sarcasm_eq [OF example_globals_ok, of example_rng "''oh great, another meeting''"]
  by (auto simp: example_globals_def example_mlp_predict_row)

lemma fit_iterations_bound:
  "it \<le> snd (fit_iterations opt rate X y k it p) \<and> snd (fit_iterations opt rate X y k it p) \<le> it + k
   \<and> (0 < k \<longrightarrow> it < snd (fit_iterations opt rate X y k it p))"
proof (induction k arbitrary: it p)
  case 0
  then show ?case by simp
next
  case (Suc k)
  let ?p = "update opt rate X y p"
  from Suc.IH [of "Suc it" ?p] show ?case
    by (auto simp: Let_def)
qed

lemma fit_iterations_unfold:
  "0 < k \<Longrightarrow> fit_iterations opt rate X y k it p =
     (let p' = update opt rate X y p in
      if stop_now opt X y (Suc it) p' then (p', Suc it)
      else fit_iterations opt rate X y (k - 1) (Suc it) p')"
  by (cases k) (auto simp: Let_def)

lemma argmax_from_bound: "best < i \<Longrightarrow> argmax_from best v i xs < i + length xs"
proof (induction xs arbitrary: best v i)
  case Nil
  then show ?case by simp
next
  case (Cons a xs)
  have new: "argmax_from i a (Suc i) xs < Suc i + length xs"
    by (rule Cons.IH) simp
  have old: "argmax_from best v (Suc i) xs < Suc i + length xs"
    using Cons.prems by (intro Cons.IH) simp
  show ?case using new old by simp
qed

lemma argmax_bound: "xs \<noteq> [] \<Longrightarrow> argmax xs < length xs"
  using argmax_from_bound [of 0 1] by (cases xs) (auto simp: argmax_def)

lemma mlp_scores_length: "length (mlp_scores clf n x) = n"
  by (simp add: mlp_scores_def mlp_layer_def Let_def)

lemma mlp_predict_row_in_classes:
  assumes "classes clf \<noteq> []"
  shows "mlp_predict_row clf x \<in> set (classes clf)"
proof (cases "classes clf")
  case Nil
  with assms show ?thesis by simp
next
  case (Cons c cs)
  note outer = Cons
  show ?thesis
  proof (cases cs)
    case Nil
    with outer show ?thesis by (simp add: mlp_predict_row_def)
  next
    case (Cons d ds)
    note mid = Cons
    show ?thesis
    proof (cases ds)
      case Nil
      with outer mid show ?thesis by (simp add: mlp_predict_row_def)
    next
      case (Cons e es)
      have "argmax (mlp_scores clf (length (classes clf)) x) < length (classes clf)"
        using argmax_bound [of "mlp_scores clf (length (classes clf)) x"] assms
        by (metis length_0_conv mlp_scores_length)
      then have "classes clf ! argmax (mlp_scores clf (length (classes clf)) x) \<in> set (classes clf)"
        by simp
      with outer mid Cons show ?thesis by (simp add: mlp_predict_row_def)
    qed
  qed
qed

lemma mlp_predict_in_classes:
  "mlp_predict clf X = Inr pred \<Longrightarrow> set pred \<subseteq> set (classes clf) \<and> length pred = length X"
  using mlp_predict_row_in_classes by (auto simp: mlp_predict_def split: if_splits)

lemma mlp_fit_Inr:
  assumes "mlp_fit opt c X y = Inr clf"
  shows "X \<noteq> [] \<and> length X = length y \<and> list_all (\<lambda>x. length x = length (hd X)) X
     \<and> hidden_layer_sizes clf = hidden_layer_sizes c \<and> max_iter clf = max_iter c
     \<and> learning_rate_init clf = learning_rate_init c \<and> random_state clf = random_state c
     \<and> classes clf = sorted_list_of_set (set y) \<and> n_features_in clf = length (hd X)
     \<and> (coefs clf, intercepts clf) =
          fst (fit_iterations opt (learning_rate_init c) X y (max_iter c) 0
                (initialise opt (random_state c)
                   (length (hd X) # hidden_layer_sizes c @ [if length (sorted_list_of_set (set y)) \<le> 2 then 1 else length (sorted_list_of_set (set y))])))
     \<and> n_iter clf =
          snd (fit_iterations opt (learning_rate_init c) X y (max_iter c) 0
                (initialise opt (random_state c)
                   (length (hd X) # hidden_layer_sizes c @ [if length (sorted_list_of_set (set y)) \<le> 2 then 1 else length (sorted_list_of_set (set y))])))"
  using assms
  by (auto simp: mlp_fit_def Let_def split: if_splits prod.splits)

lemma binary_classes:
  assumes "set y \<subseteq> {0, 1 :: int}"
  shows "length (sorted_list_of_set (set y)) \<le> 2"
proof -
  have "card (set y) \<le> card {0, 1 :: int}"
    using assms by (intro card_mono) simp_all
  then show ?thesis by simp
qed

lemma example_mlp_fit:
  "mlp_fit example_optimizer mlp_clf [replicate 768 1 @ replicate 768 7] [1] = Inr example_fitted"
proof -
  have it: "fit_iterations example_optimizer (1 / 1000) [replicate 768 1 @ replicate 768 7] [1] 1000 0
              ((\<lambda>l i j. 0), (\<lambda>l j. 0)) = (((\<lambda>l i j. 0), (\<lambda>l j. 0)), 3)"
    by (simp add: fit_iterations_unfold example_optimizer_def)
  have init: "initialise example_optimizer seed units = ((\<lambda>l i j. 0), (\<lambda>l j. 0))" for seed units
    by (simp add: example_optimizer_def)
  show ?thesis
    by (simp add: mlp_fit_def mlp_clf_def example_fitted_def init it)
qed

lemma safe_indexing_nth: "j < length rows \<Longrightarrow> safe_indexing a rows ! j = a ! (rows ! j)"
  by (simp add: safe_indexing_def)

lemma safe_indexing_length: "length (safe_indexing a rows) = length rows"
  by (simp add: safe_indexing_def)

lemma train_rows_drop: "train_rows perm n_test = drop n_test perm"
  by (simp add: train_rows_def)

lemma split_rows_partition:
  assumes "distinct perm" "set perm = {..<n}"
  shows "set (train_rows perm n_test) \<inter> set (test_rows perm n_test) = {}"
    and "set (train_rows perm n_test) \<union> set (test_rows perm n_test) = {..<n}"
    and "distinct (train_rows perm n_test)" and "distinct (test_rows perm n_test)"
    and "length (train_rows perm n_test) = n - n_test"
    and "length (test_rows perm n_test) = min n n_test"
proof -
  have "card (set perm) = n" using assms(2) by simp
  then have len: "length perm = n" using assms(1) by (simp add: distinct_card)
  note p = assms len
  show "set (train_rows perm n_test) \<inter> set (test_rows perm n_test) = {}"
    using set_take_disj_set_drop_if_distinct [OF p(1), of n_test n_test]
    by (auto simp: train_rows_drop test_rows_def)
  have "set (take n_test perm) \<union> set (drop n_test perm) = set perm"
    by (metis append_take_drop_id set_append)
  then show "set (train_rows perm n_test) \<union> set (test_rows perm n_test) = {..<n}"
    using p(2) by (auto simp: train_rows_drop test_rows_def)
  show "distinct (train_rows perm n_test)" "distinct (test_rows perm n_test)"
    using p(1) by (simp_all add: train_rows_drop test_rows_def)
  show "length (train_rows perm n_test) = n - n_test" "length (test_rows perm n_test) = min n n_test"
    using p(3) by (simp_all add: train_rows_drop test_rows_def)
qed

lemma train_test_split_Inr:
  assumes "train_test_split perm n_test a1 a2 a3 a4 a5 = Inr (s1, s2, s3, s4, s5)"
  shows "length a2 = length a1 \<and> length a3 = length a1 \<and> length a4 = length a1 \<and> length a5 = length a1
     \<and> n_test < length a1
     \<and> s1 = split_array perm n_test a1 \<and> s2 = split_array perm n_test a2 \<and> s3 = split_array perm n_test a3
     \<and> s4 = split_array perm n_test a4 \<and> s5 = split_array perm n_test a5"
  using assms by (auto simp: train_test_split_def Let_def split: if_splits)

lemma example_perm_ok: "distinct example_perm" "set example_perm = {..<length example_labels}"
  by (auto simp: example_perm_def example_labels_def)


lemma example_split:
  "train_test_split example_perm 1 (example_rows 10) (example_rows 20) (example_rows 30) (example_rows 40) example_labels =
     Inr (([[10], [13], [11], [14]], [[12]]), ([[20], [23], [21], [24]], [[22]]),
          ([[30], [33], [31], [34]], [[32]]), ([[40], [43], [41], [44]], [[42]]), ([0, 1, 1, 1], [0]))"
  by (simp add: train_test_split_def split_array_def safe_indexing_def train_rows_def test_rows_def
      example_perm_def example_rows_def example_labels_def)

lemma reduce_lr_keeps:
  "model_weights (reduce_lr_on_epoch_end current s) = model_weights s"
  "stop_training (reduce_lr_on_epoch_end current s) = stop_training s"
  "val_loss_history (reduce_lr_on_epoch_end current s) = val_loss_history s"
  "stopper (reduce_lr_on_epoch_end current s) = stopper s"
  by (simp_all add: reduce_lr_on_epoch_end_def Let_def)

lemma Min_snoc:
  "h \<noteq> [] \<Longrightarrow> Min (set (h @ [c])) = min c (Min (set h))"
  by simp

lemma es_step:
  assumes inv: "es_invariant tr epoch s"
    and s2: "model_weights s2 = w'" "stop_training s2 = stop_training s"
       "val_loss_history s2 = val_loss_history s @ [val_loss tr w']" "stopper s2 = stopper s"
  shows "if stop_training (early_stopping_on_epoch_end epoch (val_loss tr w') s2)
         then es_stopped tr (early_stopping_on_epoch_end epoch (val_loss tr w') s2)
         else es_invariant tr (Suc epoch) (early_stopping_on_epoch_end epoch (val_loss tr w') s2)"
proof (cases "epoch = 0")
  case True
  with inv s2 show ?thesis
    by (simp add: es_invariant_def early_stopping_on_epoch_end_def Let_def is_improvement_def)
next
  case False
  let ?h = "val_loss_history s"
  let ?c = "val_loss tr w'"
  from inv False have ne: "?h \<noteq> []" by (auto simp: es_invariant_def)
  from inv False obtain bw where
    best: "es_best (stopper s) = Some (Min (set ?h))"
    and ep: "es_best_epoch (stopper s) + es_wait (stopper s) + 1 = epoch"
    and at: "?h ! es_best_epoch (stopper s) = Min (set ?h)"
    and bw: "es_best_weights (stopper s) = Some bw" "val_loss tr bw = Min (set ?h)"
    and wait: "es_wait (stopper s) < 4"
    and cfg: "es_patience (stopper s) = 4" "es_min_delta (stopper s) = 0" "es_restore_best_weights (stopper s)"
    and len: "length ?h = epoch" and ns: "\<not> stop_training s"
    by (auto simp: es_invariant_def)
  show ?thesis
  proof (cases "?c < Min (set ?h)")
    case True
    then have m: "Min (set (?h @ [?c])) = ?c" using Min_snoc [OF ne, of ?c] by simp
    have new: "(?h @ [?c]) ! epoch = ?c" using len by auto
    show ?thesis
      using True s2 best bw cfg len ns False m new
      by (simp add: es_invariant_def early_stopping_on_epoch_end_def Let_def is_improvement_def)
  next
    case notimp: False
    then have m: "Min (set (?h @ [?c])) = Min (set ?h)" using Min_snoc [OF ne, of ?c] by simp
    have idx: "es_best_epoch (stopper s) < length ?h" using ep len by simp
    show ?thesis
      using notimp s2 best ep at bw wait cfg len ns False m idx
      by (auto simp: es_invariant_def es_stopped_def early_stopping_on_epoch_end_def Let_def
          is_improvement_def nth_append)
  qed
qed


lemma early_stopping_keeps:
  "val_loss_history (early_stopping_on_epoch_end epoch current s) = val_loss_history s"
  "learning_rate (early_stopping_on_epoch_end epoch current s) = learning_rate s"
  "scheduler (early_stopping_on_epoch_end epoch current s) = scheduler s"
  by (simp_all add: early_stopping_on_epoch_end_def Let_def split: option.splits bool.splits)

lemma fit_epochs_result:
  "es_invariant tr epoch s \<Longrightarrow>
     (if stop_training (fit_epochs tr epoch k s)
      then es_stopped tr (fit_epochs tr epoch k s) \<and> length (val_loss_history (fit_epochs tr epoch k s)) \<le> epoch + k
      else es_invariant tr (epoch + k) (fit_epochs tr epoch k s))"
proof (induction k arbitrary: epoch s)
  case 0
  then have "\<not> stop_training s" by (simp add: es_invariant_def)
  with 0 show ?case by simp
next
  case (Suc k)
  let ?w = "train_epoch tr epoch (learning_rate s) (model_weights s)"
  let ?c = "val_loss tr ?w"
  let ?s1 = "s\<lparr>model_weights := ?w, val_loss_history := val_loss_history s @ [?c]\<rparr>"
  let ?s2 = "reduce_lr_on_epoch_end ?c ?s1"
  let ?s3 = "early_stopping_on_epoch_end epoch ?c ?s2"
  have step: "if stop_training ?s3 then es_stopped tr ?s3 else es_invariant tr (Suc epoch) ?s3"
    by (rule es_step [OF Suc.prems]) (simp_all add: reduce_lr_keeps)
  have len: "length (val_loss_history ?s3) = Suc epoch"
    using Suc.prems by (simp add: early_stopping_keeps reduce_lr_keeps es_invariant_def)
  show ?case
  proof (cases "stop_training ?s3")
    case True
    then have eq: "fit_epochs tr epoch (Suc k) s = ?s3" by (simp add: Let_def)
    from True step len show ?thesis unfolding eq by simp
  next
    case False
    then have eq: "fit_epochs tr epoch (Suc k) s = fit_epochs tr (Suc epoch) k ?s3" by (simp add: Let_def)
    from False step have "es_invariant tr (Suc epoch) ?s3" by simp
    from Suc.IH [OF this] show ?thesis unfolding eq by (simp split: if_splits)
  qed
qed

lemma reduce_lr_config:
  "lr_factor (scheduler (reduce_lr_on_epoch_end current s)) = lr_factor (scheduler s)"
  "lr_patience (scheduler (reduce_lr_on_epoch_end current s)) = lr_patience (scheduler s)"
  "lr_min_delta (scheduler (reduce_lr_on_epoch_end current s)) = lr_min_delta (scheduler s)"
  "lr_min_lr (scheduler (reduce_lr_on_epoch_end current s)) = lr_min_lr (scheduler s)"
  "lr_cooldown (scheduler (reduce_lr_on_epoch_end current s)) = lr_cooldown (scheduler s)"
  by (simp_all add: reduce_lr_on_epoch_end_def Let_def)

lemma reduce_lr_counter:
  "lr_cooldown (scheduler s) = 0 \<Longrightarrow> lr_cooldown_counter (scheduler s) = 0 \<Longrightarrow>
     lr_cooldown_counter (scheduler (reduce_lr_on_epoch_end current s)) = 0"
  by (simp add: reduce_lr_on_epoch_end_def Let_def)

lemma reduce_lr_rate:
  assumes "lr_factor (scheduler s) = 1 / 2" "lr_min_lr (scheduler s) = 0" "0 < learning_rate s"
  shows "learning_rate (reduce_lr_on_epoch_end current s) = learning_rate s
       \<or> learning_rate (reduce_lr_on_epoch_end current s) = learning_rate s * (1 / 2)"
proof -
  have "max (learning_rate s * (1 / 2)) 0 = learning_rate s * (1 / 2)"
    using assms(3) by simp
  then show ?thesis
    using assms(1,2) by (simp add: reduce_lr_on_epoch_end_def Let_def)
qed

lemma reduce_lr_invariant:
  assumes "lr_invariant lr0 s" "0 < lr0"
  shows "lr_invariant lr0 (reduce_lr_on_epoch_end current s)"
proof -
  from assms obtain k where k: "learning_rate s = lr0 * (1 / 2) ^ k"
    and cfg: "lr_factor (scheduler s) = 1 / 2" "lr_min_lr (scheduler s) = 0"
      "lr_cooldown (scheduler s) = 0" "lr_cooldown_counter (scheduler s) = 0"
    by (auto simp: lr_invariant_def)
  have pos: "0 < learning_rate s" using assms(2) by (simp add: k)
  from reduce_lr_rate [OF cfg(1,2) pos, of current]
  have "\<exists>j. learning_rate (reduce_lr_on_epoch_end current s) = lr0 * (1 / 2) ^ j"
  proof
    assume "learning_rate (reduce_lr_on_epoch_end current s) = learning_rate s"
    then have "learning_rate (reduce_lr_on_epoch_end current s) = lr0 * (1 / 2) ^ k"
      by (simp add: k)
    then show ?thesis by blast
  next
    assume "learning_rate (reduce_lr_on_epoch_end current s) = learning_rate s * (1 / 2)"
    then have "learning_rate (reduce_lr_on_epoch_end current s) = lr0 * (1 / 2) ^ Suc k"
      by (simp add: k)
    then show ?thesis by blast
  qed
  then show ?thesis
    using cfg by (simp add: lr_invariant_def reduce_lr_config reduce_lr_counter)
qed

lemma fit_epochs_lr:
  "lr_invariant lr0 s \<Longrightarrow> 0 < lr0 \<Longrightarrow> lr_invariant lr0 (fit_epochs tr epoch k s)"
proof (induction k arbitrary: epoch s)
  case 0
  then show ?case by simp
next
  case (Suc k)
  let ?w = "train_epoch tr epoch (learning_rate s) (model_weights s)"
  let ?c = "val_loss tr ?w"
  let ?s1 = "s\<lparr>model_weights := ?w, val_loss_history := val_loss_history s @ [?c]\<rparr>"
  let ?s3 = "early_stopping_on_epoch_end epoch ?c (reduce_lr_on_epoch_end ?c ?s1)"
  have "lr_invariant lr0 ?s1" using Suc.prems(1) by (simp add: lr_invariant_def)
  then have "lr_invariant lr0 (reduce_lr_on_epoch_end ?c ?s1)"
    using Suc.prems(2) by (rule reduce_lr_invariant)
  then have inv3: "lr_invariant lr0 ?s3"
    by (simp add: lr_invariant_def early_stopping_keeps)
  have eq: "fit_epochs tr epoch (Suc k) s = (if stop_training ?s3 then ?s3 else fit_epochs tr (Suc epoch) k ?s3)"
    by (simp add: Let_def)
  show ?case
    using inv3 Suc.IH [OF inv3 Suc.prems(2)] unfolding eq by simp
qed

lemma fit_initial_invariants:
  "es_invariant tr 0
     \<lparr>model_weights = w, learning_rate = lr, stop_training = False, val_loss_history = [],
      scheduler = lr_scheduler\<lparr>lr_best := None, lr_wait := 0, lr_cooldown_counter := 0\<rparr>,
      stopper = early_stopper\<lparr>es_wait := 0, es_best := None, es_best_weights := None,
                       es_best_epoch := 0, es_stopped_epoch := 0\<rparr>\<rparr>"
  "lr_invariant lr
     \<lparr>model_weights = w, learning_rate = lr, stop_training = False, val_loss_history = [],
      scheduler = lr_scheduler\<lparr>lr_best := None, lr_wait := 0, lr_cooldown_counter := 0\<rparr>,
      stopper = early_stopper\<lparr>es_wait := 0, es_best := None, es_best_weights := None,
                       es_best_epoch := 0, es_stopped_epoch := 0\<rparr>\<rparr>"
proof -
  show "es_invariant tr 0
     \<lparr>model_weights = w, learning_rate = lr, stop_training = False, val_loss_history = [],
      scheduler = lr_scheduler\<lparr>lr_best := None, lr_wait := 0, lr_cooldown_counter := 0\<rparr>,
      stopper = early_stopper\<lparr>es_wait := 0, es_best := None, es_best_weights := None,
                       es_best_epoch := 0, es_stopped_epoch := 0\<rparr>\<rparr>"
    by (simp add: es_invariant_def early_stopper_def)
  have "\<exists>k. lr = lr * (1 / 2) ^ k" by (rule exI [of _ 0]) simp
  then show "lr_invariant lr
     \<lparr>model_weights = w, learning_rate = lr, stop_training = False, val_loss_history = [],
      scheduler = lr_scheduler\<lparr>lr_best := None, lr_wait := 0, lr_cooldown_counter := 0\<rparr>,
      stopper = early_stopper\<lparr>es_wait := 0, es_best := None, es_best_weights := None,
                       es_best_epoch := 0, es_stopped_epoch := 0\<rparr>\<rparr>"
    by (simp add: lr_invariant_def lr_scheduler_def)
qed

lemma fit_run:
  fixes tr :: "'w trainer" and w :: 'w and n :: nat
  defines "r \<equiv> fit tr lr_scheduler early_stopper n optimizer_learning_rate w"
  shows "length (val_loss_history r) \<le> n"
    and "stop_training r \<Longrightarrow>
           es_best_weights (stopper r) = Some (model_weights r)
         \<and> val_loss tr (model_weights r) = Min (set (val_loss_history r))
         \<and> val_loss_history r ! es_best_epoch (stopper r) = Min (set (val_loss_history r))
         \<and> length (val_loss_history r) = es_best_epoch (stopper r) + 5"
    and "\<not> stop_training r \<Longrightarrow>
           length (val_loss_history r) = n
         \<and> (0 < n \<longrightarrow> n < es_best_epoch (stopper r) + 5
              \<and> val_loss_history r ! es_best_epoch (stopper r) = Min (set (val_loss_history r)))"
    and "\<exists>k. learning_rate r = optimizer_learning_rate * (1 / 2) ^ k"
proof -
  note res = fit_epochs_result [OF fit_initial_invariants(1) [where tr = tr and w = w and lr = optimizer_learning_rate],
      where k = n, folded fit_def r_def]
  have pos: "0 < optimizer_learning_rate" by (simp add: optimizer_learning_rate_def)
  note lr = fit_epochs_lr [OF fit_initial_invariants(2) [where w = w and lr = optimizer_learning_rate] pos,
      where tr = tr and epoch = 0 and k = n, folded fit_def r_def]
  show "length (val_loss_history r) \<le> n"
    using res by (cases "stop_training r") (simp_all add: es_invariant_def)
  show "stop_training r \<Longrightarrow>
           es_best_weights (stopper r) = Some (model_weights r)
         \<and> val_loss tr (model_weights r) = Min (set (val_loss_history r))
         \<and> val_loss_history r ! es_best_epoch (stopper r) = Min (set (val_loss_history r))
         \<and> length (val_loss_history r) = es_best_epoch (stopper r) + 5"
    using res by (simp add: es_stopped_def)
  show "\<not> stop_training r \<Longrightarrow>
           length (val_loss_history r) = n
         \<and> (0 < n \<longrightarrow> n < es_best_epoch (stopper r) + 5
              \<and> val_loss_history r ! es_best_epoch (stopper r) = Min (set (val_loss_history r)))"
    using res by (auto simp: es_invariant_def)
  show "\<exists>k. learning_rate r = optimizer_learning_rate * (1 / 2) ^ k"
    using lr by (simp add: lr_invariant_def)
qed


lemma fit_epochs_unfold:
  "0 < k \<Longrightarrow> fit_epochs tr epoch k s =
     (let w' = train_epoch tr epoch (learning_rate s) (model_weights s);
          s3 = early_stopping_on_epoch_end epoch (val_loss tr w')
                 (reduce_lr_on_epoch_end (val_loss tr w')
                    (s\<lparr>model_weights := w', val_loss_history := val_loss_history s @ [val_loss tr w']\<rparr>))
      in if stop_training s3 then s3 else fit_epochs tr (Suc epoch) (k - 1) s3)"
  by (cases k) (auto simp: Let_def)

lemma reduce_lr_plateau:
  assumes "scheduler s = lr_scheduler\<lparr>lr_best := Some b, lr_wait := k\<rparr>"
    and "\<not> current < b - 1 / 10000"
  shows "k = 1 \<Longrightarrow> 0 < learning_rate s \<Longrightarrow>
           learning_rate (reduce_lr_on_epoch_end current s) = learning_rate s * (1 / 2)"
    and "k = 0 \<Longrightarrow> learning_rate (reduce_lr_on_epoch_end current s) = learning_rate s"
  using assms
  by (simp_all add: reduce_lr_on_epoch_end_def lr_scheduler_def Let_def is_improvement_def)

lemma early_stopping_fires:
  assumes "stopper s = early_stopper\<lparr>es_best := Some b, es_best_weights := Some bw, es_wait := k\<rparr>"
    and "\<not> current < b"
  shows "k = 3 \<Longrightarrow> 0 < epoch \<Longrightarrow>
           stop_training (early_stopping_on_epoch_end epoch current s)
         \<and> model_weights (early_stopping_on_epoch_end epoch current s) = bw"
    and "k < 3 \<Longrightarrow>
           stop_training (early_stopping_on_epoch_end epoch current s) = stop_training s
         \<and> model_weights (early_stopping_on_epoch_end epoch current s) = model_weights s"
  using assms
  by (simp_all add: early_stopping_on_epoch_end_def early_stopper_def Let_def is_improvement_def)

lemma example_fit:
  "fit example_trainer lr_scheduler early_stopper 10 optimizer_learning_rate 0 =
     \<lparr>model_weights = 1, learning_rate = optimizer_learning_rate * (1 / 2) ^ 2, stop_training = True,
      val_loss_history = [5, 6, 6, 6, 6],
      scheduler = lr_scheduler\<lparr>lr_best := Some 5, lr_wait := 0, lr_cooldown_counter := 0\<rparr>,
      stopper = early_stopper\<lparr>es_wait := 4, es_best := Some 5, es_best_weights := Some 1,
                       es_best_epoch := 0, es_stopped_epoch := 4\<rparr>\<rparr>"
  by (simp add: fit_def fit_epochs_unfold example_trainer_def lr_scheduler_def early_stopper_def
      reduce_lr_on_epoch_end_def early_stopping_on_epoch_end_def is_improvement_def Let_def
      optimizer_learning_rate_def power2_eq_square)

lemma exec_Inr: "exec s env = Inr env' \<Longrightarrow> env' = binds s @ env"
  by (auto simp: exec_def split: option.splits)

lemma run_binds:
  "run ss env = Inr env' \<Longrightarrow> set env' = set env \<union> set (concat (map binds ss))"
proof (induction ss arbitrary: env)
  case Nil
  then show ?case by simp
next
  case (Cons s ss)
  from Cons.prems obtain e where e: "exec s env = Inr e" and r: "run ss e = Inr env'"
    by (auto simp: and_then_Inr_iff)
  from Cons.IH [OF r] exec_Inr [OF e] show ?case by auto
qed

lemma exec_unbound:
  assumes "n \<in> set (reads s)" "n \<notin> set env"
  shows "raises_name_error (exec s env)"
proof -
  from assms have "find (\<lambda>n. n \<notin> set env) (reads s) \<noteq> None"
    by (auto simp: find_None_iff)
  then show ?thesis
    by (auto simp: exec_def raises_name_error_def)
qed

lemma stage1_binds_no_stage2_name:
  "list_all (\<lambda>n. n \<notin> set (concat (map binds stage1_statements))) stage2_names"
  by (simp add: stage1_statements_def stage2_names_def)

lemma stage1_binds_history: "''history'' \<in> set (binds (last stage1_statements))"
  by (simp add: stage1_statements_def)

lemma stage2_operations_eq:
  "stage2_operations =
     [Stmt 136 [''embedding_extractor'', ''X_ids_bert_train'', ''X_mask_bert_train'', ''X_ids_roberta_train'', ''X_mask_roberta_train''] [''train_embeddings''],
      Stmt 140 [''embedding_extractor'', ''X_ids_bert_test'', ''X_mask_bert_test'', ''X_ids_roberta_test'', ''X_mask_roberta_test''] [''test_embeddings''],
      Stmt 152 [''mlp_clf'', ''train_embeddings'', ''y_train''] [],
      Stmt 156 [''mlp_clf'', ''test_embeddings''] [''preds''],
      predict_sarcasm_call]"
  by (simp add: stage2_operations_def script_def stage1_statements_def stage2_statements_def)


lemma stage1_history_last:
  "''history'' \<notin> set (concat (map binds (butlast stage1_statements)))"
  by (simp add: stage1_statements_def)

lemma stage2_operations_read:
  "list_all (\<lambda>op. list_ex (\<lambda>n. n \<in> set stage2_names) (reads op)) stage2_operations"
  by (simp add: stage2_operations_eq predict_sarcasm_call_def stage2_names_def)

lemma binds_take_subset:
  "set (concat (map binds (take k ss))) \<subseteq> set (concat (map binds ss))"
  using set_take_subset [of k ss] by auto

lemma no_stage2_name_raises:
  assumes "\<not> list_ex (\<lambda>n. n \<in> set env) stage2_names"
  shows "list_all (\<lambda>op. raises_name_error (exec op env)) stage2_operations"
proof -
  have "raises_name_error (exec op env)" if "op \<in> set stage2_operations" for op
  proof -
    from that stage2_operations_read obtain n where "n \<in> set (reads op)" "n \<in> set stage2_names"
      by (auto simp: list_all_iff list_ex_iff)
    moreover from this assms have "n \<notin> set env" by (auto simp: list_ex_iff)
    ultimately show ?thesis by (rule_tac exec_unbound)
  qed
  then show ?thesis by (simp add: list_all_iff)
qed

lemma before_fit:
  assumes "k < length stage1_statements" "run (take k script) [] = Inr env"
  shows "\<not> list_ex (\<lambda>n. n \<in> set env) stage2_names" and "''history'' \<notin> set env"
proof -
  have tk: "take k script = take k (butlast stage1_statements)"
    using assms(1) by (simp add: script_def take_butlast)
  from run_binds [OF assms(2) [unfolded tk]]
  have env: "set env = set (concat (map binds (take k (butlast stage1_statements))))" by simp
  have sub: "set env \<subseteq> set (concat (map binds (butlast stage1_statements)))"
    unfolding env by (rule binds_take_subset)
  have "set (concat (map binds (butlast stage1_statements))) \<subseteq> set (concat (map binds stage1_statements))"
    using binds_take_subset [of "length stage1_statements - 1" stage1_statements]
    by (simp add: butlast_conv_take)
  then have "set env \<subseteq> set (concat (map binds stage1_statements))"
    using sub by blast
  then show "\<not> list_ex (\<lambda>n. n \<in> set env) stage2_names"
    using stage1_binds_no_stage2_name by (auto simp: list_all_iff list_ex_iff)
  show "''history'' \<notin> set env"
    using sub stage1_history_last by blast
qed

lemma after_fit:
  assumes "length stage1_statements \<le> k" "run (take k script) [] = Inr env"
  shows "''history'' \<in> set env"
proof -
  have ne: "stage1_statements \<noteq> []" by (simp add: stage1_statements_def)
  have tk: "take k script = stage1_statements @ take (k - length stage1_statements) stage2_statements"
    using assms(1) by (simp add: script_def)
  from run_binds [OF assms(2) [unfolded tk]]
  have "set (binds (last stage1_statements)) \<subseteq> set env"
    using ne by (auto simp: last_in_set)
  with stage1_binds_history show ?thesis by blast
qed

lemma script_completes:
  "(case run script [] of Inl e \<Rightarrow> False
    | Inr env \<Rightarrow> ''history'' \<in> set env \<and> list_all (\<lambda>n. n \<in> set env) stage2_names)"
  by code_simp

lemma example_prefix:
  "run (take 13 script) [] =
     Inr [''data'', ''sns'', ''plt'', ''accuracy_score'', ''precision_score'', ''recall_score'', ''f1_score'',
          ''classification_report'', ''confusion_matrix'', ''MLPClassifier'', ''train_test_split'', ''pd'', ''np'',
          ''ReduceLROnPlateau'', ''EarlyStopping'', ''Model'', ''Input'', ''Dense'', ''Concatenate'', ''Lambda'',
          ''Dropout'', ''TFBertModel'', ''BertTokenizer'', ''TFRobertaModel'', ''RobertaTokenizer'', ''tf'']"
  by (simp add: script_def stage1_statements_def exec_def)


section \<open>The representation each branch returns\<close>

text \<open>
  C4. The two branches take their whole-sequence vector differently, and which branch does
  which is fixed: the BERT branch returns the encoder's pooled output; the RoBERTa branch
  returns the hidden vector of the first token of the last hidden state (and raises only
  when a sample has no token at all). In the joint embedding the extractor returns, every
  row is the pooled BERT vector of that sample followed by the first-token RoBERTa vector
  of that sample.
\<close>

theorem branch_representations:
  "bert_branch w (ids, am) = Inr (pooler_output (bert_model w ids am))
   \<and> roberta_branch w (ids, am) =
       (if list_ex (\<lambda>tokens. tokens = []) (last_hidden_state (roberta_model w ids am)) then Inl IndexError
        else Inr (map hd (last_hidden_state (roberta_model w ids am))))
   \<and> (predict w rng embedding_extractor [bi, bm, ri, rm] = Inr E \<longrightarrow>
        E = map2 (@) (pooler_output (bert_model w bi bm)) (map hd (last_hidden_state (roberta_model w ri rm))))"
  using extractor_call_Inr [of w False rng bi bm ri rm E]
  by (simp add: bert_branch_def roberta_branch_eq predict_def)

theorem branch_representations_witness:
  "bert_branch example_weights (example_ids, example_ids) = Inr [replicate 768 1]
   \<and> roberta_branch example_weights (example_ids, example_ids) = Inr [replicate 768 7]
   \<and> predict example_weights example_rng embedding_extractor [example_ids, example_ids, example_ids, example_ids]
       = Inr [replicate 768 1 @ replicate 768 7]
   \<and> [replicate 768 1 @ replicate 768 (7::real)] =
       map2 (@) (pooler_output (bert_model example_weights example_ids example_ids))
         (map hd (last_hidden_state (roberta_model example_weights example_ids example_ids)))"
  using branch_representations [of example_weights example_ids example_ids example_rng
      example_ids example_ids example_ids example_ids "[replicate 768 1 @ replicate 768 7]"]
    example_predict
  by (simp add: example_ids_def example_weights_def example_encoder_def)

section \<open>The joint embedding\<close>



section \<open>Determinism of the extractor\<close>

text \<open>
  C9. At given weights the embedding extractor is deterministic: two predictions on the
  same token ids and masks return the same joint embedding whatever the random state,
  because no dropout layer lies on a path to the fused embedding; so much so that the mode
  of the call does not matter either. (The encoders are functions of their inputs at given
  weights.)
\<close>

theorem embedding_extractor_deterministic:
  "predict w rng1 embedding_extractor xs = predict w rng2 embedding_extractor xs
   \<and> stochastic_layers (model_outputs embedding_extractor) = []
   \<and> model_call w training keep embedding_extractor xs = predict w rng1 embedding_extractor xs"
  using extractor_call_mode [of w False rng1 xs False rng2]
    extractor_call_mode [of w training keep xs False rng1]
  by (simp add: predict_def extractor_no_dropout)

theorem embedding_extractor_deterministic_witness:
  "predict example_weights (\<lambda>name i j. False) embedding_extractor [example_ids, example_ids, example_ids, example_ids]
     = Inr [replicate 768 1 @ replicate 768 7]
   \<and> model_call example_weights True (\<lambda>name i j. True) embedding_extractor [example_ids, example_ids, example_ids, example_ids]
     = Inr [replicate 768 1 @ replicate 768 7]"
  using embedding_extractor_deterministic [of example_weights example_rng
      "[example_ids, example_ids, example_ids, example_ids]" "\<lambda>name i j. False" True "\<lambda>name i j. True"]
    embedding_extractor_deterministic [of example_weights "\<lambda>name i j. False"
      "[example_ids, example_ids, example_ids, example_ids]" example_rng True "\<lambda>name i j. True"]
    example_predict
  by simp

section \<open>The fine-tuning head\<close>

text \<open>
  C7. On every joint embedding the head applies a dense layer of 128 units, dropout, a dense
  layer of 64 units, dropout, and one sigmoid unit. A dense unit is the activation of the
  weighted sum of its inputs plus its bias, the activation being \<open>max 0 z\<close> for relu and
  \<open>1 / (1 + exp (- z))\<close> for the sigmoid; so at inference the value for a sample is the
  closed formula below in the weights and the sample's joint embedding: exactly one value
  per sample, a probability between 0 and 1. Dropout is the identity when the model is not
  training, so a call at inference does not depend on the keep-masks; when training, a unit
  is kept and rescaled by \<open>1 / (1 - rate)\<close> or set to zero, the shape unchanged, and if
  every unit is dropped the output is the sigmoid of the output bias alone. The model is
  compiled with binary cross-entropy: the loss of a batch, which a training step has the
  optimizer decrease as a function of all the weights, the encoders' included, and which a
  validation step reports, is the mean over the batch of the cross-entropy of label and
  predicted probability, the probability clipped to the interval from \<open>1e-7\<close> to
  \<open>1 - 1e-7\<close>.
\<close>

theorem fine_tuning_head:
  "model_call w training keep ensemble_model xs =
     and_then (model_call w training keep embedding_extractor xs)
       (\<lambda>E. Inr (dense_call 1 Sigmoid (kernel w ''classifier_output'') (bias w ''classifier_output'')
               (dropout_call (3 / 10) training (keep ''dropout_1'')
                 (dense_call 64 Relu (kernel w ''dense_1'') (bias w ''dense_1'')
                   (dropout_call (3 / 10) training (keep ''dropout'')
                     (dense_call 128 Relu (kernel w ''dense'') (bias w ''dense'') E))))))
   \<and> model_call w False keep ensemble_model xs =
       and_then (model_call w False keep embedding_extractor xs)
         (\<lambda>E. Inr (map (\<lambda>x. [1 / (1 + exp (- ((\<Sum>j\<leftarrow>[0..<64].
                      max 0 ((\<Sum>i\<leftarrow>[0..<128].
                         max 0 ((\<Sum>k\<leftarrow>[0..<length x]. x ! k * kernel w ''dense'' k i) + bias w ''dense'' i)
                           * kernel w ''dense_1'' i j) + bias w ''dense_1'' j)
                        * kernel w ''classifier_output'' j 0)
                    + bias w ''classifier_output'' 0)))]) E))
   \<and> model_call w True (\<lambda>name i j. False) ensemble_model xs =
       and_then (model_call w True (\<lambda>name i j. False) embedding_extractor xs)
         (\<lambda>E. Inr (map (\<lambda>x. [1 / (1 + exp (- bias w ''classifier_output'' 0))]) E))
   \<and> (i < length X \<and> j < units \<longrightarrow>
        dense_call units Relu K b X ! i ! j
          = max 0 ((\<Sum>k\<leftarrow>[0..<length (X ! i)]. X ! i ! k * K k j) + b j))
   \<and> (i < length X \<and> j < units \<longrightarrow>
        dense_call units Sigmoid K b X ! i ! j
          = 1 / (1 + exp (- ((\<Sum>k\<leftarrow>[0..<length (X ! i)]. X ! i ! k * K k j) + b j))))
   \<and> length (dense_call units act K b X) = length X
   \<and> list_all (\<lambda>h. length h = units) (dense_call units act K b X)
   \<and> dropout_call rate False m X = X
   \<and> (i < length X \<and> j < length (X ! i) \<longrightarrow>
        dropout_call rate True m X ! i ! j = (if m i j then X ! i ! j / (1 - rate) else 0))
   \<and> map length (dropout_call rate training m X) = map length X
   \<and> (model_call w training keep ensemble_model xs = Inr P \<longrightarrow>
        list_all (\<lambda>p. length p = 1 \<and> 0 \<le> hd p \<and> hd p \<le> 1) P)
   \<and> model_call w False keep ensemble_model xs = model_call w False keep' ensemble_model xs
   \<and> compile_loss ensemble_model_compile = Binary_crossentropy
   \<and> loss_value (compile_loss ensemble_model_compile) ys ps =
        (\<Sum>(y, p)\<leftarrow>zip ys ps.
            - (y * ln (min (max p (1 / 10000000)) (1 - 1 / 10000000))
               + (1 - y) * ln (1 - min (max p (1 / 10000000)) (1 - 1 / 10000000)))) / real (length ys)
   \<and> compiled_loss w training keep xs labels =
       and_then (model_call w training keep ensemble_model xs)
         (\<lambda>P. if labels = [] \<or> length P \<noteq> length labels then Inl ValueError
              else Inr ((\<Sum>(t, p)\<leftarrow>zip (map real_of_int labels) (map hd P).
                          - (t * ln (min (max p (1 / 10000000)) (1 - 1 / 10000000))
                             + (1 - t) * ln (1 - min (max p (1 / 10000000)) (1 - 1 / 10000000))))
                        / real (length labels)))
   \<and> test_step keep w (xs, labels) = compiled_loss w False keep xs labels
   \<and> train_step minimize lr keep w (xs, labels) =
       and_then (compiled_loss w True keep xs labels)
         (\<lambda>loss. Inr (minimize lr (\<lambda>w'. compiled_loss w' True keep xs labels) w, loss))"
proof -
  have relu_unit: "i < length X \<and> j < units \<longrightarrow>
        dense_call units Relu K b X ! i ! j
          = max 0 ((\<Sum>k\<leftarrow>[0..<length (X ! i)]. X ! i ! k * K k j) + b j)"
    using dense_call_nth(1) by blast
  have sigmoid_unit: "i < length X \<and> j < units \<longrightarrow>
        dense_call units Sigmoid K b X ! i ! j
          = 1 / (1 + exp (- ((\<Sum>k\<leftarrow>[0..<length (X ! i)]. X ! i ! k * K k j) + b j)))"
    using dense_call_nth(2) by blast
  have dropped: "i < length X \<and> j < length (X ! i) \<longrightarrow>
        dropout_call rate True m X ! i ! j = (if m i j then X ! i ! j / (1 - rate) else 0)"
    using dropout_training by blast
  have compiled: "compile_loss ensemble_model_compile = Binary_crossentropy"
    by (simp add: ensemble_model_compile_def)
  show ?thesis
    apply (intro conjI)
                    apply (rule ensemble_call_eq)
                   apply (rule ensemble_inference)
                  apply (rule ensemble_all_dropped)
                 apply (rule relu_unit)
                apply (rule sigmoid_unit)
               apply (rule dense_call_shape)
              apply (rule dense_call_widths)
             apply (rule dropout_inference)
            apply (rule dropped)
           apply (rule dropout_shape)
          apply (rule ensemble_range)
         apply (rule ensemble_inference_mask)
        apply (rule compiled)
       apply (rule loss_value_eq)
      apply (rule compiled_loss_eq)
     apply (rule step_eq(1))
    apply (rule step_eq(2))
    done
qed

theorem fine_tuning_head_witness:
  "model_call example_head_weights False example_rng ensemble_model [example_ids, example_ids, example_ids, example_ids]
     = Inr [[1 / (1 + exp (- 1))]]
   \<and> model_call example_head_weights False example_rng ensemble_model
         [example_ids2, example_ids2, example_ids2, example_ids2]
     = Inr [[1 / 2]]
   \<and> model_call example_head_weights True (\<lambda>name i j. False) ensemble_model
         [example_ids, example_ids, example_ids, example_ids]
     = Inr [[1 / (1 + exp 6)]]
   \<and> dense_call 2 Relu (\<lambda>k j. if j = 0 then 1 else - 1) (\<lambda>j. 0) [[3, 4]] ! 0 ! 0 = 7
   \<and> dense_call 2 Relu (\<lambda>k j. if j = 0 then 1 else - 1) (\<lambda>j. 0) [[3, 4]] ! 0 ! 1 = 0
   \<and> dense_call 1 Sigmoid (\<lambda>k j. 1) (\<lambda>j. - 7) [[3, 4]] ! 0 ! 0 = 1 / 2
   \<and> dropout_call (3 / 10) True (example_rng ''dropout'') [[7, 7]] ! 0 ! 0 = 10
   \<and> dropout_call (3 / 10) True (example_rng ''dropout'') [[7, 7]] ! 0 ! 1 = 0
   \<and> dropout_call (3 / 10) False (example_rng ''dropout'') [[7, 7]] = [[7, 7]]
   \<and> list_all (\<lambda>p. length p = 1 \<and> 0 \<le> hd p \<and> hd p \<le> 1) [[1 / (1 + exp (- 1)) :: real]]
   \<and> loss_value (compile_loss ensemble_model_compile) [1] [0] = - ln (1 / 10000000)
   \<and> loss_value (compile_loss ensemble_model_compile) [1, 0] [1 / 2, 1 / 2] = - ln (1 / 2)
   \<and> test_step example_rng example_head_weights ([example_ids2, example_ids2, example_ids2, example_ids2], [1])
        = Inr (- ln (1 / 2))
   \<and> train_step (\<lambda>lr loss w. w) (3 / 100000) (\<lambda>name i j. False) example_head_weights
          ([example_ids, example_ids, example_ids, example_ids], [1])
        = Inr (example_head_weights, - ln (1 / (1 + exp 6)))"
proof -
  let ?X = "[example_ids, example_ids, example_ids, example_ids]"
  let ?X2 = "[example_ids2, example_ids2, example_ids2, example_ids2]"
  let ?none = "\<lambda>(name :: string) (i :: nat) (j :: nat). False"
  have a: "model_call example_head_weights False example_rng ensemble_model ?X = Inr [[1 / (1 + exp (- 1))]]"
    using fine_tuning_head [where w = example_head_weights and keep = example_rng and xs = ?X,
        unfolded example_head_extractor and_then_simps,
        THEN conjunct2, THEN conjunct1]
    by (simp add: example_head_params sum_pick sum_pick_one nth_append)
  have b: "model_call example_head_weights False example_rng ensemble_model ?X2 = Inr [[1 / 2]]"
    using fine_tuning_head [where w = example_head_weights and keep = example_rng and xs = ?X2,
        unfolded example_head_extractor and_then_simps,
        THEN conjunct2, THEN conjunct1]
    by (simp add: example_head_params sum_pick sum_pick_one nth_append)
  have c: "model_call example_head_weights True ?none ensemble_model ?X = Inr [[1 / (1 + exp 6)]]"
    using fine_tuning_head [where w = example_head_weights and xs = ?X,
        unfolded example_head_extractor and_then_simps,
        THEN conjunct2, THEN conjunct2, THEN conjunct1]
    by (simp add: example_head_params)
  have d: "dense_call 2 Relu (\<lambda>k j. if j = 0 then 1 else - 1) (\<lambda>j. 0) [[3, 4]] ! 0 ! 0 = 7"
    using fine_tuning_head [where X = "[[3, 4]]" and i = 0 and j = 0 and units = 2
        and K = "\<lambda>k j. if j = 0 then 1 else - 1" and b = "\<lambda>j. 0",
        THEN conjunct2, THEN conjunct2, THEN conjunct2, THEN conjunct1]
    by (simp add: upt_rec)
  have e: "dense_call 2 Relu (\<lambda>k j. if j = 0 then 1 else - 1) (\<lambda>j. 0) [[3, 4]] ! 0 ! 1 = 0"
    using fine_tuning_head [where X = "[[3, 4]]" and i = 0 and j = 1 and units = 2
        and K = "\<lambda>k j. if j = 0 then 1 else - 1" and b = "\<lambda>j. 0",
        THEN conjunct2, THEN conjunct2, THEN conjunct2, THEN conjunct1]
    by (simp add: upt_rec)
  have f: "dense_call 1 Sigmoid (\<lambda>k j. 1) (\<lambda>j. - 7) [[3, 4]] ! 0 ! 0 = 1 / 2"
    using fine_tuning_head [where X = "[[3, 4]]" and i = 0 and j = 0 and units = 1
        and K = "\<lambda>k j. 1" and b = "\<lambda>j. - 7",
        THEN conjunct2, THEN conjunct2, THEN conjunct2, THEN conjunct2, THEN conjunct1]
    by (simp add: upt_rec)
  have g: "dropout_call (3 / 10) True (example_rng ''dropout'') [[7, 7]] ! 0 ! 0 = 10"
    using fine_tuning_head [where X = "[[7, 7]]" and i = 0 and j = 0 and rate = "3 / 10"
        and m = "example_rng ''dropout''",
        THEN conjunct2, THEN conjunct2, THEN conjunct2, THEN conjunct2, THEN conjunct2, THEN conjunct2,
        THEN conjunct2, THEN conjunct2, THEN conjunct1]
    by (simp add: example_rng_def)
  have h: "dropout_call (3 / 10) True (example_rng ''dropout'') [[7, 7]] ! 0 ! 1 = 0"
    using fine_tuning_head [where X = "[[7, 7]]" and i = 0 and j = 1 and rate = "3 / 10"
        and m = "example_rng ''dropout''",
        THEN conjunct2, THEN conjunct2, THEN conjunct2, THEN conjunct2, THEN conjunct2, THEN conjunct2,
        THEN conjunct2, THEN conjunct2, THEN conjunct1]
    by (simp add: example_rng_def)
  have k: "dropout_call (3 / 10) False (example_rng ''dropout'') [[7, 7]] = [[7, 7]]"
    by (rule fine_tuning_head [THEN conjunct2, THEN conjunct2, THEN conjunct2, THEN conjunct2, THEN conjunct2, THEN conjunct2,
        THEN conjunct2, THEN conjunct1])
  have l: "list_all (\<lambda>p. length p = 1 \<and> 0 \<le> hd p \<and> hd p \<le> 1) [[1 / (1 + exp (- 1)) :: real]]"
    using fine_tuning_head [where w = example_head_weights and training = False and keep = example_rng
        and xs = ?X and P = "[[1 / (1 + exp (- 1))]]",
        THEN conjunct2, THEN conjunct2, THEN conjunct2, THEN conjunct2, THEN conjunct2, THEN conjunct2,
        THEN conjunct2, THEN conjunct2, THEN conjunct2, THEN conjunct2, THEN conjunct1] a
    by blast
  have m: "loss_value (compile_loss ensemble_model_compile) [1] [0] = - ln (1 / 10000000)"
    using fine_tuning_head [where ys = "[1]" and ps = "[0]",
        THEN conjunct2, THEN conjunct2, THEN conjunct2, THEN conjunct2, THEN conjunct2, THEN conjunct2,
        THEN conjunct2, THEN conjunct2, THEN conjunct2, THEN conjunct2, THEN conjunct2, THEN conjunct2,
        THEN conjunct2, THEN conjunct1]
    by simp
  have n: "loss_value (compile_loss ensemble_model_compile) [1, 0] [1 / 2, 1 / 2] = - ln (1 / 2)"
    using fine_tuning_head [where ys = "[1, 0]" and ps = "[1 / 2, 1 / 2]",
        THEN conjunct2, THEN conjunct2, THEN conjunct2, THEN conjunct2, THEN conjunct2, THEN conjunct2,
        THEN conjunct2, THEN conjunct2, THEN conjunct2, THEN conjunct2, THEN conjunct2, THEN conjunct2,
        THEN conjunct2, THEN conjunct1]
    by simp
  have o: "test_step example_rng example_head_weights (?X2, [1]) = Inr (- ln (1 / 2))"
    using fine_tuning_head [where w = example_head_weights and keep = example_rng and xs = ?X2 and labels = "[1]",
        THEN conjunct2, THEN conjunct2, THEN conjunct2, THEN conjunct2, THEN conjunct2, THEN conjunct2,
        THEN conjunct2, THEN conjunct2, THEN conjunct2, THEN conjunct2, THEN conjunct2, THEN conjunct2,
        THEN conjunct2, THEN conjunct2, THEN conjunct2, THEN conjunct1]
      fine_tuning_head [where w = example_head_weights and training = False and keep = example_rng
        and xs = ?X2 and labels = "[1]",
        THEN conjunct2, THEN conjunct2, THEN conjunct2, THEN conjunct2, THEN conjunct2, THEN conjunct2,
        THEN conjunct2, THEN conjunct2, THEN conjunct2, THEN conjunct2, THEN conjunct2, THEN conjunct2,
        THEN conjunct2, THEN conjunct2, THEN conjunct1, unfolded b and_then_simps]
    by simp
  have p: "train_step (\<lambda>lr loss w. w) (3 / 100000) ?none example_head_weights (?X, [1])
        = Inr (example_head_weights, - ln (1 / (1 + exp 6)))"
    using fine_tuning_head [where w = example_head_weights and keep = ?none and xs = ?X and labels = "[1]"
        and minimize = "\<lambda>lr loss w. w" and lr = "3 / 100000",
        THEN conjunct2, THEN conjunct2, THEN conjunct2, THEN conjunct2, THEN conjunct2, THEN conjunct2,
        THEN conjunct2, THEN conjunct2, THEN conjunct2, THEN conjunct2, THEN conjunct2, THEN conjunct2,
        THEN conjunct2, THEN conjunct2, THEN conjunct2, THEN conjunct2]
      fine_tuning_head [where w = example_head_weights and training = True and keep = ?none
        and xs = ?X and labels = "[1]",
        THEN conjunct2, THEN conjunct2, THEN conjunct2, THEN conjunct2, THEN conjunct2, THEN conjunct2,
        THEN conjunct2, THEN conjunct2, THEN conjunct2, THEN conjunct2, THEN conjunct2, THEN conjunct2,
        THEN conjunct2, THEN conjunct2, THEN conjunct1, unfolded c and_then_simps]
    by (simp add: example_clip)
  show ?thesis
    using a b c d e f g h k l m n o p by (intro conjI)
qed

section \<open>Inference on one text\<close>

text \<open>
  C5, as the code has it. For every text, of any length, \<^verbatim>\<open>predict_sarcasm\<close> does not raise
  when both encoders keep their contract and the secondary classifier has been fitted on
  embeddings of width 1536: each tokenizer pads or cuts the text to the maximum sequence
  length used in training, the extractor returns one joint embedding, and the result is one
  of exactly two strings, the sarcastic one when the classifier's label for that embedding
  is 1 and the other one otherwise. What is returned is the string, not the label.
\<close>

theorem predict_sarcasm_result:
  assumes "encoder_contract (bert_model (ensemble_weights g))"
    and "encoder_contract (roberta_model (ensemble_weights g))"
    and "classes (fitted_mlp_clf g) \<noteq> []"
    and "n_features_in (fitted_mlp_clf g) = 1536"
  shows "\<exists>e. predict (ensemble_weights g) rng embedding_extractor
               [[fst (tokenizer_call (bert_tokenizer g) text max_seq_length)],
                [snd (tokenizer_call (bert_tokenizer g) text max_seq_length)],
                [fst (tokenizer_call (roberta_tokenizer g) text max_seq_length)],
                [snd (tokenizer_call (roberta_tokenizer g) text max_seq_length)]] = Inr [e]
          \<and> predict_sarcasm g rng text =
              Inr (PyStr (if mlp_predict_row (fitted_mlp_clf g) e = 1 then sarcastic else not_sarcastic))"
  using predict_sarcasm_eq [OF assms] .

theorem predict_sarcasm_result_witness:
  "encoder_contract (bert_model (ensemble_weights example_globals))
   \<and> encoder_contract (roberta_model (ensemble_weights example_globals))
   \<and> classes (fitted_mlp_clf example_globals) \<noteq> []
   \<and> n_features_in (fitted_mlp_clf example_globals) = 1536
   \<and> predict_sarcasm example_globals example_rng ''oh great, another meeting'' = Inr (PyStr not_sarcastic)"
  using predict_sarcasm_result [OF example_globals_ok, of example_rng "''oh great, another meeting''"]
    example_globals_ok
  by (auto simp: example_globals_def example_mlp_predict_row)

text \<open>
  On the literal input the result is a string, so it is neither of the labels 0 and 1.
\<close>

theorem predict_sarcasm_label_counterexample:
  "predict_sarcasm example_globals example_rng ''oh great, another meeting'' = Inr (PyStr not_sarcastic)
   \<and> predict_sarcasm example_globals example_rng ''oh great, another meeting'' \<notin> {Inr (PyInt 0), Inr (PyInt 1)}"
  using example_predict_sarcasm by simp

section \<open>The secondary classifier is fitted on joint embeddings\<close>

text \<open>
  C8. The secondary classifier is a perceptron with exactly two hidden layers, of 128 and
  64 units, whose coefficients are drawn from the fixed random state 42 and then improved
  by at most 1000 iterations. What it is fitted on is what the extractor returns for the
  train tokens, never the tokens. When the train labels are 0 and 1, its classes are among
  0 and 1, and so is what it predicts for any embedding.
\<close>

theorem secondary_classifier:
  assumes "set y_train \<subseteq> {0, 1}"
    and "mlp_clf_fitted opt w rng X_train y_train = Inr clf"
  shows "hidden_layer_sizes clf = [128, 64] \<and> max_iter clf = 1000 \<and> random_state clf = 42
     \<and> 1 \<le> n_iter clf \<and> n_iter clf \<le> 1000
     \<and> (\<exists>E. predict w rng embedding_extractor X_train = Inr E
            \<and> mlp_fit opt mlp_clf E y_train = Inr clf
            \<and> n_features_in clf = length (hd E)
            \<and> (coefs clf, intercepts clf) =
                 fst (fit_iterations opt (1 / 1000) E y_train 1000 0
                       (initialise opt 42 [length (hd E), 128, 64, 1])))
     \<and> set (classes clf) \<subseteq> {0, 1}
     \<and> mlp_predict_row clf x \<in> {0, 1}
     \<and> (mlp_predict clf X = Inr pred \<longrightarrow> set pred \<subseteq> {0, 1} \<and> length pred = length X)"
proof -
  from assms(2) obtain E where E: "predict w rng embedding_extractor X_train = Inr E"
    and fit: "mlp_fit opt mlp_clf E y_train = Inr clf"
    by (auto simp: mlp_clf_fitted_def train_embeddings_def and_then_Inr_iff)
  note f = mlp_fit_Inr [OF fit]
  have two: "length (sorted_list_of_set (set y_train)) \<le> 2"
    using binary_classes [OF assms(1)] .
  have config: "hidden_layer_sizes clf = [128, 64]" "max_iter clf = 1000" "random_state clf = 42"
    using f by (simp_all add: mlp_clf_def)
  have iters: "n_iter clf = snd (fit_iterations opt (1 / 1000) E y_train 1000 0
                       (initialise opt 42 [length (hd E), 128, 64, 1]))"
    using f two by (simp add: mlp_clf_def)
  have bound: "1 \<le> n_iter clf" "n_iter clf \<le> 1000"
    using fit_iterations_bound [of 0 opt "1 / 1000" E y_train 1000 "initialise opt 42 [length (hd E), 128, 64, 1]"]
    by (simp_all add: iters)
  have params: "(coefs clf, intercepts clf) =
                 fst (fit_iterations opt (1 / 1000) E y_train 1000 0
                       (initialise opt 42 [length (hd E), 128, 64, 1]))"
    using f two by (simp add: mlp_clf_def)
  have "y_train \<noteq> []" using f by auto
  then have ne: "classes clf \<noteq> []"
    using f by simp
  have cls: "set (classes clf) \<subseteq> {0, 1}"
    using f assms(1) by simp
  have row: "mlp_predict_row clf x \<in> {0, 1}"
    using mlp_predict_row_in_classes [OF ne, of x] cls by blast
  have batch: "mlp_predict clf X = Inr pred \<longrightarrow> set pred \<subseteq> {0, 1} \<and> length pred = length X"
    using mlp_predict_in_classes [of clf X pred] cls by blast
  from E fit f have ex: "\<exists>E. predict w rng embedding_extractor X_train = Inr E
            \<and> mlp_fit opt mlp_clf E y_train = Inr clf
            \<and> n_features_in clf = length (hd E)
            \<and> (coefs clf, intercepts clf) =
                 fst (fit_iterations opt (1 / 1000) E y_train 1000 0
                       (initialise opt 42 [length (hd E), 128, 64, 1]))"
    using params by blast
  show ?thesis
    using config bound ex cls row batch by blast
qed

theorem secondary_classifier_witness:
  "set [1 :: int] \<subseteq> {0, 1}
   \<and> mlp_clf_fitted example_optimizer example_weights example_rng
        [example_ids, example_ids, example_ids, example_ids] [1] = Inr example_fitted
   \<and> n_iter example_fitted = 3
   \<and> n_features_in example_fitted = 1536
   \<and> mlp_predict_row example_fitted (replicate 1536 2) \<in> {0, 1}
   \<and> mlp_predict example_fitted [replicate 1536 2] = Inr [1]"
proof -
  have h1: "set [1 :: int] \<subseteq> {0, 1}" by simp
  have h2: "mlp_clf_fitted example_optimizer example_weights example_rng
        [example_ids, example_ids, example_ids, example_ids] [1] = Inr example_fitted"
    by (simp add: mlp_clf_fitted_def train_embeddings_def example_predict example_mlp_fit)
  note facts = secondary_classifier [OF h1 h2, of "replicate 1536 2" "[replicate 1536 2]" "[1]"]
  have p: "mlp_predict example_fitted [replicate 1536 2] = Inr [1]"
    by (simp add: mlp_predict_def mlp_predict_row_def example_fitted_def mlp_clf_def)
  show ?thesis
    using h1 h2 facts p by (simp add: example_fitted_def mlp_clf_def)
qed

section \<open>The split keeps each row together\<close>

text \<open>
  C3. The split is one split, by one permutation of the row numbers, of all five arrays:
  at every position of the train part the BERT ids, the BERT mask, the RoBERTa ids, the
  RoBERTa mask and the label are those of one and the same row of the dataset, and likewise
  at every position of the test part. No row is in both parts, every row is in one of
  them, and no row is taken twice.
\<close>

theorem split_keeps_rows_together:
  assumes "distinct perm" and "set perm = {..<length labels}"
    and "train_test_split perm n_test X_ids_bert X_mask_bert X_ids_roberta X_mask_roberta labels =
           Inr ((X_ids_bert_train, X_ids_bert_test), (X_mask_bert_train, X_mask_bert_test),
                (X_ids_roberta_train, X_ids_roberta_test), (X_mask_roberta_train, X_mask_roberta_test),
                (y_train, y_test))"
  shows "(\<forall>j < length y_train.
            train_rows perm n_test ! j < length labels
          \<and> X_ids_bert_train ! j = X_ids_bert ! (train_rows perm n_test ! j)
          \<and> X_mask_bert_train ! j = X_mask_bert ! (train_rows perm n_test ! j)
          \<and> X_ids_roberta_train ! j = X_ids_roberta ! (train_rows perm n_test ! j)
          \<and> X_mask_roberta_train ! j = X_mask_roberta ! (train_rows perm n_test ! j)
          \<and> y_train ! j = labels ! (train_rows perm n_test ! j))
     \<and> (\<forall>j < length y_test.
            test_rows perm n_test ! j < length labels
          \<and> X_ids_bert_test ! j = X_ids_bert ! (test_rows perm n_test ! j)
          \<and> X_mask_bert_test ! j = X_mask_bert ! (test_rows perm n_test ! j)
          \<and> X_ids_roberta_test ! j = X_ids_roberta ! (test_rows perm n_test ! j)
          \<and> X_mask_roberta_test ! j = X_mask_roberta ! (test_rows perm n_test ! j)
          \<and> y_test ! j = labels ! (test_rows perm n_test ! j))
     \<and> length y_train = length labels - n_test \<and> length y_test = n_test
     \<and> map length [X_ids_bert_train, X_mask_bert_train, X_ids_roberta_train, X_mask_roberta_train]
          = replicate 4 (length y_train)
     \<and> map length [X_ids_bert_test, X_mask_bert_test, X_ids_roberta_test, X_mask_roberta_test]
          = replicate 4 (length y_test)
     \<and> set (train_rows perm n_test) \<inter> set (test_rows perm n_test) = {}
     \<and> set (train_rows perm n_test) \<union> set (test_rows perm n_test) = {..<length labels}
     \<and> distinct (train_rows perm n_test) \<and> distinct (test_rows perm n_test)"
proof -
  note s = train_test_split_Inr [OF assms(3)]
  note part = split_rows_partition [OF assms(1,2), of n_test]
  have small: "n_test < length labels" using s by simp
  have ltrain: "length y_train = length (train_rows perm n_test)"
    and ltest: "length y_test = length (test_rows perm n_test)"
    using s by (simp_all add: split_array_def safe_indexing_length)
  have in_train: "train_rows perm n_test ! j < length labels" if "j < length y_train" for j
  proof -
    from that ltrain have "train_rows perm n_test ! j \<in> set (train_rows perm n_test)" by simp
    with part(2) show ?thesis by blast
  qed
  have in_test: "test_rows perm n_test ! j < length labels" if "j < length y_test" for j
  proof -
    from that ltest have "test_rows perm n_test ! j \<in> set (test_rows perm n_test)" by simp
    with part(2) show ?thesis by blast
  qed
  have train: "\<forall>j < length y_train.
            train_rows perm n_test ! j < length labels
          \<and> X_ids_bert_train ! j = X_ids_bert ! (train_rows perm n_test ! j)
          \<and> X_mask_bert_train ! j = X_mask_bert ! (train_rows perm n_test ! j)
          \<and> X_ids_roberta_train ! j = X_ids_roberta ! (train_rows perm n_test ! j)
          \<and> X_mask_roberta_train ! j = X_mask_roberta ! (train_rows perm n_test ! j)
          \<and> y_train ! j = labels ! (train_rows perm n_test ! j)"
    using s in_train ltrain by (simp add: split_array_def safe_indexing_nth)
  have test: "\<forall>j < length y_test.
            test_rows perm n_test ! j < length labels
          \<and> X_ids_bert_test ! j = X_ids_bert ! (test_rows perm n_test ! j)
          \<and> X_mask_bert_test ! j = X_mask_bert ! (test_rows perm n_test ! j)
          \<and> X_ids_roberta_test ! j = X_ids_roberta ! (test_rows perm n_test ! j)
          \<and> X_mask_roberta_test ! j = X_mask_roberta ! (test_rows perm n_test ! j)
          \<and> y_test ! j = labels ! (test_rows perm n_test ! j)"
    using s in_test ltest by (simp add: split_array_def safe_indexing_nth)
  have sizes: "length y_train = length labels - n_test" "length y_test = n_test"
    using ltrain ltest part(5,6) small by simp_all
  have lens: "map length [X_ids_bert_train, X_mask_bert_train, X_ids_roberta_train, X_mask_roberta_train]
          = replicate 4 (length y_train)"
      "map length [X_ids_bert_test, X_mask_bert_test, X_ids_roberta_test, X_mask_roberta_test]
          = replicate 4 (length y_test)"
    using s by (simp_all add: split_array_def safe_indexing_length numeral_eq_Suc)
  show ?thesis
    using train test sizes lens part(1-4) by blast
qed

theorem split_keeps_rows_together_witness:
  "distinct example_perm \<and> set example_perm = {..<length example_labels}
   \<and> train_test_split example_perm 1 (example_rows 10) (example_rows 20) (example_rows 30) (example_rows 40) example_labels =
       Inr (([[10], [13], [11], [14]], [[12]]), ([[20], [23], [21], [24]], [[22]]),
          ([[30], [33], [31], [34]], [[32]]), ([[40], [43], [41], [44]], [[42]]), ([0, 1, 1, 1], [0]))
   \<and> train_rows example_perm 1 = [0, 3, 1, 4] \<and> test_rows example_perm 1 = [2]
   \<and> set (train_rows example_perm 1) \<inter> set (test_rows example_perm 1) = {}
   \<and> [[10], [13], [11], [14]] ! 1 = example_rows 10 ! (train_rows example_perm 1 ! 1)
   \<and> [0, 1, 1, 1] ! 1 = example_labels ! (train_rows example_perm 1 ! 1)"
proof -
  note facts = split_keeps_rows_together [OF example_perm_ok example_split]
  have rows: "train_rows example_perm 1 = [0, 3, 1, 4]" "test_rows example_perm 1 = [2]"
    by (simp_all add: train_rows_def test_rows_def example_perm_def)
  have one: "1 < length [0, 1, 1, 1 :: int]" by simp
  note row = facts [THEN conjunct1, rule_format, OF one]
  from row have "[[10], [13], [11], [14]] ! 1 = example_rows 10 ! (train_rows example_perm 1 ! 1)
      \<and> [0, 1, 1, 1] ! 1 = example_labels ! (train_rows example_perm 1 ! 1)"
    by blast
  moreover from facts have "set (train_rows example_perm 1) \<inter> set (test_rows example_perm 1) = {}"
    by blast
  ultimately show ?thesis
    using example_perm_ok example_split rows by simp
qed

section \<open>The two policies on the validation loss\<close>

text \<open>
  C6. In every epoch of fine-tuning both callbacks are called, in turn, on that epoch's
  validation loss. The scheduler halves the learning rate at the second epoch in a row
  whose loss is no improvement, and leaves it alone at the first. The stopper stops the run
  at the fourth epoch in a row whose loss is no improvement and puts back the best weights
  it has kept; before that it changes neither. For the run as a whole, whatever the epoch
  budget: when it was stopped early, the model holds the weights whose validation loss is
  the least of all epochs, not those of the last epoch, and the last epoch is the fourth
  after the best one; when it was not, the budget was used up and the best epoch is among
  the last four; and the final learning rate is the initial one halved some number of
  times.
\<close>

theorem validation_loss_policies:
  "fit_epochs tr epoch (Suc k) s =
     (let w' = train_epoch tr epoch (learning_rate s) (model_weights s);
          s3 = early_stopping_on_epoch_end epoch (val_loss tr w')
                 (reduce_lr_on_epoch_end (val_loss tr w')
                    (s\<lparr>model_weights := w', val_loss_history := val_loss_history s @ [val_loss tr w']\<rparr>))
      in if stop_training s3 then s3 else fit_epochs tr (Suc epoch) k s3)
   \<and> (scheduler s = lr_scheduler\<lparr>lr_best := Some b, lr_wait := 1\<rparr> \<and> \<not> current < b - 1 / 10000
        \<and> 0 < learning_rate s \<longrightarrow>
          learning_rate (reduce_lr_on_epoch_end current s) = learning_rate s * (1 / 2))
   \<and> (scheduler s = lr_scheduler\<lparr>lr_best := Some b, lr_wait := 0\<rparr> \<and> \<not> current < b - 1 / 10000 \<longrightarrow>
          learning_rate (reduce_lr_on_epoch_end current s) = learning_rate s)
   \<and> (stopper s = early_stopper\<lparr>es_best := Some b, es_best_weights := Some bw, es_wait := 3\<rparr>
        \<and> \<not> current < b \<and> 0 < epoch \<longrightarrow>
          stop_training (early_stopping_on_epoch_end epoch current s)
        \<and> model_weights (early_stopping_on_epoch_end epoch current s) = bw)
   \<and> (stopper s = early_stopper\<lparr>es_best := Some b, es_best_weights := Some bw, es_wait := j\<rparr>
        \<and> \<not> current < b \<and> j < 3 \<longrightarrow>
          stop_training (early_stopping_on_epoch_end epoch current s) = stop_training s
        \<and> model_weights (early_stopping_on_epoch_end epoch current s) = model_weights s)
   \<and> (let r = fit tr lr_scheduler early_stopper n optimizer_learning_rate w in
        length (val_loss_history r) \<le> n
      \<and> (stop_training r \<longrightarrow>
            es_best_weights (stopper r) = Some (model_weights r)
          \<and> val_loss tr (model_weights r) = Min (set (val_loss_history r))
          \<and> val_loss_history r ! es_best_epoch (stopper r) = Min (set (val_loss_history r))
          \<and> length (val_loss_history r) = es_best_epoch (stopper r) + 5)
      \<and> (\<not> stop_training r \<longrightarrow>
            length (val_loss_history r) = n
          \<and> (0 < n \<longrightarrow> n < es_best_epoch (stopper r) + 5
               \<and> val_loss_history r ! es_best_epoch (stopper r) = Min (set (val_loss_history r))))
      \<and> (\<exists>i. learning_rate r = optimizer_learning_rate * (1 / 2) ^ i))"
proof -
  have epoch_eq: "fit_epochs tr epoch (Suc k) s =
     (let w' = train_epoch tr epoch (learning_rate s) (model_weights s);
          s3 = early_stopping_on_epoch_end epoch (val_loss tr w')
                 (reduce_lr_on_epoch_end (val_loss tr w')
                    (s\<lparr>model_weights := w', val_loss_history := val_loss_history s @ [val_loss tr w']\<rparr>))
      in if stop_training s3 then s3 else fit_epochs tr (Suc epoch) k s3)"
    by (simp add: Let_def)
  have run: "let r = fit tr lr_scheduler early_stopper n optimizer_learning_rate w in
        length (val_loss_history r) \<le> n
      \<and> (stop_training r \<longrightarrow>
            es_best_weights (stopper r) = Some (model_weights r)
          \<and> val_loss tr (model_weights r) = Min (set (val_loss_history r))
          \<and> val_loss_history r ! es_best_epoch (stopper r) = Min (set (val_loss_history r))
          \<and> length (val_loss_history r) = es_best_epoch (stopper r) + 5)
      \<and> (\<not> stop_training r \<longrightarrow>
            length (val_loss_history r) = n
          \<and> (0 < n \<longrightarrow> n < es_best_epoch (stopper r) + 5
               \<and> val_loss_history r ! es_best_epoch (stopper r) = Min (set (val_loss_history r))))
      \<and> (\<exists>i. learning_rate r = optimizer_learning_rate * (1 / 2) ^ i)"
    unfolding Let_def using fit_run [of tr n w] by blast
  show ?thesis
    using epoch_eq run
      reduce_lr_plateau [where s = s and b = b and current = current]
      early_stopping_fires [where s = s and b = b and bw = bw and current = current and epoch = epoch]
    by blast
qed

theorem validation_loss_policies_witness:
  "stop_training (fit example_trainer lr_scheduler early_stopper 10 optimizer_learning_rate 0)
   \<and> val_loss_history (fit example_trainer lr_scheduler early_stopper 10 optimizer_learning_rate 0) = [5, 6, 6, 6, 6]
   \<and> model_weights (fit example_trainer lr_scheduler early_stopper 10 optimizer_learning_rate 0) = 1
   \<and> val_loss example_trainer 1 = Min (set [5, 6, 6, 6, 6])
   \<and> learning_rate (fit example_trainer lr_scheduler early_stopper 10 optimizer_learning_rate 0)
       = optimizer_learning_rate * (1 / 2) ^ 2"
proof -
  note run = validation_loss_policies [where tr = example_trainer and n = 10 and w = 0,
      THEN conjunct2, THEN conjunct2, THEN conjunct2, THEN conjunct2, THEN conjunct2, unfolded Let_def]
  note stopped = run [THEN conjunct2, THEN conjunct1]
  have "stop_training (fit example_trainer lr_scheduler early_stopper 10 optimizer_learning_rate 0)"
    by (simp add: example_fit)
  with stopped have "val_loss example_trainer
       (model_weights (fit example_trainer lr_scheduler early_stopper 10 optimizer_learning_rate 0))
     = Min (set (val_loss_history (fit example_trainer lr_scheduler early_stopper 10 optimizer_learning_rate 0)))"
    by blast
  then have "val_loss example_trainer 1 = Min (set [5, 6, 6, 6, 6])"
    by (simp only: example_fit training.simps)
  then show ?thesis
    by (simp add: example_fit)
qed

section \<open>The shipped epoch budget\<close>

text \<open>
  C10. The script trains for one epoch with an early-stopping patience of four, so the
  callback never stops the run: whatever the data and the weights, the run ends because the
  budget is used up, nothing is restored (the model keeps the weights of its only epoch),
  and the learning rate is not reduced either.
\<close>

theorem early_stopping_cannot_fire:
  "epochs = 1 \<and> es_patience (early_stopper :: 'w early_stopping) = 4
   \<and> \<not> stop_training (history tr (w :: 'w))
   \<and> es_stopped_epoch (stopper (history tr w)) = 0
   \<and> length (val_loss_history (history tr w)) = epochs
   \<and> model_weights (history tr w) = train_epoch tr 0 optimizer_learning_rate w
   \<and> learning_rate (history tr w) = optimizer_learning_rate"
  by (simp add: history_def fit_def epochs_def early_stopper_def lr_scheduler_def
      reduce_lr_on_epoch_end_def early_stopping_on_epoch_end_def is_improvement_def Let_def)

theorem early_stopping_cannot_fire_witness:
  "\<not> stop_training (history example_trainer 0)
   \<and> model_weights (history example_trainer 0) = 1
   \<and> val_loss_history (history example_trainer 0) = [5]"
  using early_stopping_cannot_fire [of example_trainer 0]
  by (simp add: history_def fit_def epochs_def early_stopper_def lr_scheduler_def example_trainer_def
      reduce_lr_on_epoch_end_def early_stopping_on_epoch_end_def is_improvement_def Let_def)

section \<open>Stage 2 comes after Stage 1\<close>

text \<open>
  C1. The script runs its statements in order, and in every state it reaches, after any
  number of statements: if the embedding extractor, the embeddings, the secondary
  classifier or its predictions exist, then fine-tuning has returned; as long as it has not,
  every operation of Stage 2 (extracting embeddings, fitting or applying the secondary
  classifier, answering a request) raises NameError; and fine-tuning has returned exactly
  when all the statements up to it have run. Run to its end, the script raises no NameError
  and leaves both stages' results bound.
\<close>

theorem stage2_after_stage1:
  assumes "run (take k script) [] = Inr env"
  shows "(list_ex (\<lambda>n. n \<in> set env) stage2_names \<longrightarrow> ''history'' \<in> set env)
     \<and> (''history'' \<notin> set env \<longrightarrow> list_all (\<lambda>op. raises_name_error (exec op env)) stage2_operations)
     \<and> (''history'' \<in> set env \<longleftrightarrow> length stage1_statements \<le> k)
     \<and> (case run script [] of Inl e \<Rightarrow> False
         | Inr final \<Rightarrow> ''history'' \<in> set final \<and> list_all (\<lambda>n. n \<in> set final) stage2_names)"
proof (cases "k < length stage1_statements")
  case True
  note b = before_fit [OF True assms]
  from b(1) have "list_all (\<lambda>op. raises_name_error (exec op env)) stage2_operations"
    by (rule no_stage2_name_raises)
  with b True script_completes show ?thesis by simp
next
  case False
  then have "length stage1_statements \<le> k" by simp
  from after_fit [OF this assms] False script_completes show ?thesis by simp
qed

theorem stage2_after_stage1_witness:
  "run (take 13 script) [] =
     Inr [''data'', ''sns'', ''plt'', ''accuracy_score'', ''precision_score'', ''recall_score'', ''f1_score'',
          ''classification_report'', ''confusion_matrix'', ''MLPClassifier'', ''train_test_split'', ''pd'', ''np'',
          ''ReduceLROnPlateau'', ''EarlyStopping'', ''Model'', ''Input'', ''Dense'', ''Concatenate'', ''Lambda'',
          ''Dropout'', ''TFBertModel'', ''BertTokenizer'', ''TFRobertaModel'', ''RobertaTokenizer'', ''tf'']
   \<and> list_all (\<lambda>op. raises_name_error
          (exec op [''data'', ''sns'', ''plt'', ''accuracy_score'', ''precision_score'', ''recall_score'', ''f1_score'',
          ''classification_report'', ''confusion_matrix'', ''MLPClassifier'', ''train_test_split'', ''pd'', ''np'',
          ''ReduceLROnPlateau'', ''EarlyStopping'', ''Model'', ''Input'', ''Dense'', ''Concatenate'', ''Lambda'',
          ''Dropout'', ''TFBertModel'', ''BertTokenizer'', ''TFRobertaModel'', ''RobertaTokenizer'', ''tf''])) stage2_operations"
proof -
  note order = stage2_after_stage1 [OF example_prefix]
  have "\<not> length stage1_statements \<le> 13"
    by (simp add: stage1_statements_def)
  with order show ?thesis
    using example_prefix by blast
qed

end
